theory Spec2Isabelle
  imports Complex_Main
begin

section \<open>Python exceptions as values\<close>

text \<open>
  Every \<^verbatim>\<open>raise\<close>, failed \<^verbatim>\<open>assert\<close> and failed attribute, key or index access of
  \<^verbatim>\<open>src/open_clip/model.py\<close> is a value \<open>Inl e\<close> of the result type \<open>error + 'a\<close>; the
  string is the exception's message (the runtime's own messages are abridged, and written
  without their quotation marks).
\<close>

datatype error =
    ValueError string
  | AssertionError string
  | AttributeError string
  | ZeroDivisionError string
  | KeyError string
  | TypeError string
  | IndexError string
  | RuntimeError string
  | NotImplementedError string

fun message :: "error \<Rightarrow> string" where
  "message (ValueError s) = s"
| "message (AssertionError s) = s"
| "message (AttributeError s) = s"
| "message (ZeroDivisionError s) = s"
| "message (KeyError s) = s"
| "message (TypeError s) = s"
| "message (IndexError s) = s"
| "message (RuntimeError s) = s"
| "message (NotImplementedError s) = s"

text \<open>Sequencing of two steps, the second skipped when the first raised.\<close>

definition and_then :: "error + 'a \<Rightarrow> ('a \<Rightarrow> error + 'b) \<Rightarrow> error + 'b" where
  "and_then r f = (case r of Inl e \<Rightarrow> Inl e | Inr v \<Rightarrow> f v)"

lemma and_then_Inl [simp]: "and_then (Inl e) f = Inl e"
  by (simp add: and_then_def)

lemma and_then_Inr [simp]: "and_then (Inr v) f = f v"
  by (simp add: and_then_def)

section \<open>The residual bottleneck block (class Bottleneck)\<close>

text \<open>
  A layer is the constructor call that builds it. \<open>Conv2d\<close> carries in_channels,
  out_channels, kernel_size, stride, padding and bias; \<open>ReLU\<close> its inplace flag.
\<close>

datatype layer =
    Conv2d int int int int int bool
  | BatchNorm2d int
  | ReLU bool
  | AvgPool2d int
  | Identity
  | Sequential "(string \<times> layer) list"

record Bottleneck =
  conv1 :: layer
  bn1 :: layer
  relu1 :: layer
  conv2 :: layer
  bn2 :: layer
  relu2 :: layer
  avgpool :: layer
  conv3 :: layer
  bn3 :: layer
  relu3 :: layer
  downsample :: "layer option"
  stride :: int

definition expansion :: int where
  "expansion = 4"

definition Bottleneck_init :: "int \<Rightarrow> int \<Rightarrow> int \<Rightarrow> Bottleneck" where
  "Bottleneck_init inplanes planes strd =
     \<lparr> conv1 = Conv2d inplanes planes 1 1 0 False,
       bn1 = BatchNorm2d planes,
       relu1 = ReLU True,
       conv2 = Conv2d planes planes 3 1 1 False,
       bn2 = BatchNorm2d planes,
       relu2 = ReLU True,
       avgpool = (if strd > 1 then AvgPool2d strd else Identity),
       conv3 = Conv2d planes (planes * expansion) 1 1 0 False,
       bn3 = BatchNorm2d (planes * expansion),
       relu3 = ReLU True,
       downsample =
         (if strd > 1 \<or> inplanes \<noteq> planes * expansion
          then Some (Sequential
                 [(''-1'', AvgPool2d strd),
                  (''0'', Conv2d inplanes (planes * expansion) 1 1 0 False),
                  (''1'', BatchNorm2d (planes * expansion))])
          else None),
       stride = strd \<rparr>"

text \<open>
  Calling a layer: \<open>Sequential\<close> runs its children in order and \<open>Identity\<close> returns its
  argument; what a convolution, a normalisation, a pooling or an activation computes is
  the tensor runtime's, the parameter \<open>prim\<close>.
\<close>

fun call :: "(layer \<Rightarrow> 't \<Rightarrow> 't) \<Rightarrow> layer \<Rightarrow> 't \<Rightarrow> 't"
  and call_children :: "(layer \<Rightarrow> 't \<Rightarrow> 't) \<Rightarrow> (string \<times> layer) list \<Rightarrow> 't \<Rightarrow> 't" where
  "call prim (Sequential ls) x = call_children prim ls x"
| "call prim Identity x = x"
| "call prim (Conv2d i out k s p b) x = prim (Conv2d i out k s p b) x"
| "call prim (BatchNorm2d n) x = prim (BatchNorm2d n) x"
| "call prim (ReLU b) x = prim (ReLU b) x"
| "call prim (AvgPool2d k) x = prim (AvgPool2d k) x"
| "call_children prim [] x = x"
| "call_children prim (nl # ls) x = call_children prim ls (call prim (snd nl) x)"

text \<open>\<^verbatim>\<open>Bottleneck.forward\<close>; \<open>add\<close> is the runtime's tensor addition of \<^verbatim>\<open>out += identity\<close>.\<close>

definition Bottleneck_forward ::
  "(layer \<Rightarrow> 't \<Rightarrow> 't) \<Rightarrow> ('t \<Rightarrow> 't \<Rightarrow> 't) \<Rightarrow> Bottleneck \<Rightarrow> 't \<Rightarrow> 't" where
  "Bottleneck_forward prim add self x =
     (let identity = x;
          out = call prim (relu1 self) (call prim (bn1 self) (call prim (conv1 self) x));
          out = call prim (relu2 self) (call prim (bn2 self) (call prim (conv2 self) out));
          out = call prim (avgpool self) out;
          out = call prim (bn3 self) (call prim (conv3 self) out);
          identity = (case downsample self of
                        Some ds \<Rightarrow> call prim ds x
                      | None \<Rightarrow> identity);
          out = add out identity
      in call prim (relu3 self) out)"

section \<open>Properties of the bottleneck block\<close>

text \<open>
  C8. A bottleneck block built with input width \<open>inplanes\<close>, width \<open>planes\<close> and stride
  \<open>s\<close> has a downsample path exactly when \<open>s > 1\<close> or \<open>inplanes\<close> differs from
  \<open>planes * 4\<close>. When present, the path is an average pooling followed by a 1x1 convolution
  of stride 1 (and its normalisation). In \<open>forward\<close> the path is applied to the block's
  input for the identity branch only: the main path is the three convolutions with the
  block's own pooling, computed from the input without the downsample path.
\<close>

theorem Bottleneck_downsample:
  "(downsample (Bottleneck_init inplanes planes s) \<noteq> None) = (s > 1 \<or> inplanes \<noteq> planes * 4)
   \<and> downsample (Bottleneck_init inplanes planes s) =
       (if s > 1 \<or> inplanes \<noteq> planes * 4
        then Some (Sequential [(''-1'', AvgPool2d s),
                               (''0'', Conv2d inplanes (planes * 4) 1 1 0 False),
                               (''1'', BatchNorm2d (planes * 4))])
        else None)
   \<and> Bottleneck_forward prim add (Bottleneck_init inplanes planes s) x =
       prim (ReLU True)
         (add
           (prim (BatchNorm2d (planes * 4))
             (prim (Conv2d planes (planes * 4) 1 1 0 False)
               ((if s > 1 then prim (AvgPool2d s) else (\<lambda>y. y))
                 (prim (ReLU True) (prim (BatchNorm2d planes) (prim (Conv2d planes planes 3 1 1 False)
                   (prim (ReLU True) (prim (BatchNorm2d planes)
                     (prim (Conv2d inplanes planes 1 1 0 False) x)))))))))
           (if s > 1 \<or> inplanes \<noteq> planes * 4
            then prim (BatchNorm2d (planes * 4))
                   (prim (Conv2d inplanes (planes * 4) 1 1 0 False) (prim (AvgPool2d s) x))
            else x))"
  by (simp add: Bottleneck_init_def Bottleneck_forward_def expansion_def Let_def)

theorem Bottleneck_downsample_witness:
  "downsample (Bottleneck_init 64 64 1) =
     Some (Sequential [(''-1'', AvgPool2d 1), (''0'', Conv2d 64 256 1 1 0 False), (''1'', BatchNorm2d 256)])
   \<and> downsample (Bottleneck_init 256 64 1) = None
   \<and> downsample (Bottleneck_init 256 64 2) \<noteq> None"
proof -
  note a = Bottleneck_downsample [of 64 64 1, THEN conjunct2, THEN conjunct1]
  note b = Bottleneck_downsample [of 256 64 1, THEN conjunct2, THEN conjunct1]
  note c = Bottleneck_downsample [of 256 64 2, THEN conjunct1]
  from a b c show ?thesis by simp
qed

section \<open>The dual-tower models (classes CLIP and VoxelCLIP): forward\<close>

text \<open>
  An embedding batch is the list of its rows (the last dimension is the row). Tensor
  elements are taken as real numbers; \<^verbatim>\<open>F.normalize(x, dim=-1)\<close> is the runtime's
  \<open>v / max(\<parallel>v\<parallel>\<^sub>2, eps)\<close> with its default \<open>eps = 1e-12\<close>, row by row.
\<close>

type_synonym embedding = "real list list"

definition l2_norm :: "real list \<Rightarrow> real" where
  "l2_norm v = sqrt (sum_list (map (\<lambda>x. x * x) v))"

definition normalize_eps :: real where
  "normalize_eps = 1 / 10 ^ 12"

definition normalize_row :: "real list \<Rightarrow> real list" where
  "normalize_row v = map (\<lambda>x. x / max (l2_norm v) normalize_eps) v"

definition F_normalize :: "embedding \<Rightarrow> embedding" where
  "F_normalize t = map normalize_row t"

text \<open>What \<^verbatim>\<open>forward\<close> returns: one tensor, or the tuple of two tensors and a scalar.\<close>

datatype forward_output = Features embedding | Triple embedding embedding real

text \<open>
  The attributes both classes set: the vision tower and the learned log-temperature. A
  tower is held as the module the constructor built; running a module on an input (which
  may be \<^verbatim>\<open>None\<close>) is the runtime's, the parameters \<open>run_visual\<close>, \<open>run_voxel\<close> and
  \<open>run_text\<close> below. \<open>run_text\<close> stands for the body of \<^verbatim>\<open>CLIP.encode_text\<close> (token and
  positional embedding, the masked transformer, the final normalisation and the projection
  of the end-of-text position).
\<close>

record 'v dual_tower =
  visual :: 'v
  logit_scale :: real

record 'v CLIP = "'v dual_tower" +
  context_length :: int
  vocab_size :: int

record ('v, 'e) VoxelCLIP = "'v dual_tower" +
  voxel_type :: string
  voxel_encoder :: 'e

definition CLIP_encode_image ::
  "('v \<Rightarrow> 'x option \<Rightarrow> error + embedding) \<Rightarrow> 'v CLIP \<Rightarrow> 'x option \<Rightarrow> error + embedding" where
  "CLIP_encode_image run_visual self img = run_visual (visual self) img"

definition CLIP_encode_text ::
  "('v CLIP \<Rightarrow> 'x option \<Rightarrow> error + embedding) \<Rightarrow> 'v CLIP \<Rightarrow> 'x option \<Rightarrow> error + embedding" where
  "CLIP_encode_text run_text self txt = run_text self txt"

definition CLIP_forward ::
  "('v \<Rightarrow> 'x option \<Rightarrow> error + embedding) \<Rightarrow> ('v CLIP \<Rightarrow> 'x option \<Rightarrow> error + embedding)
     \<Rightarrow> 'v CLIP \<Rightarrow> 'x option \<Rightarrow> 'x option \<Rightarrow> error + forward_output" where
  "CLIP_forward run_visual run_text self img txt =
     (if img = None then
        and_then (CLIP_encode_text run_text self txt) (\<lambda>f. Inr (Features f))
      else if txt = None then
        and_then (CLIP_encode_image run_visual self img) (\<lambda>f. Inr (Features f))
      else
        and_then (CLIP_encode_image run_visual self img) (\<lambda>image_features.
          let image_features = F_normalize image_features in
          and_then (CLIP_encode_text run_text self txt) (\<lambda>text_features.
            let text_features = F_normalize text_features in
            Inr (Triple image_features text_features (exp (logit_scale self))))))"

definition VoxelCLIP_encode_image ::
  "('v \<Rightarrow> 'x option \<Rightarrow> error + embedding) \<Rightarrow> ('v, 'e) VoxelCLIP \<Rightarrow> 'x option \<Rightarrow> error + embedding" where
  "VoxelCLIP_encode_image run_visual self img = run_visual (visual self) img"

definition VoxelCLIP_encode_voxel ::
  "('e \<Rightarrow> 'x option \<Rightarrow> error + embedding) \<Rightarrow> ('v, 'e) VoxelCLIP \<Rightarrow> 'x option \<Rightarrow> error + embedding" where
  "VoxelCLIP_encode_voxel run_voxel self voxel = run_voxel (voxel_encoder self) voxel"

text \<open>
  Attribute lookup on a VoxelCLIP object. The class defines \<^verbatim>\<open>__init__\<close>,
  \<^verbatim>\<open>init_parameters\<close>, \<^verbatim>\<open>lock_image_tower\<close>, \<^verbatim>\<open>encode_image\<close>, \<^verbatim>\<open>encode_voxel\<close> and
  \<^verbatim>\<open>forward\<close>, and its constructor sets \<^verbatim>\<open>visual\<close>, \<^verbatim>\<open>voxel_type\<close>, \<^verbatim>\<open>voxel_encoder\<close> and
  \<^verbatim>\<open>logit_scale\<close>; the base class \<^verbatim>\<open>nn.Module\<close> has no attribute \<^verbatim>\<open>encode_text\<close> either,
  and its \<^verbatim>\<open>__getattr__\<close> raises AttributeError for a name it does not find. Of the
  attributes, the methods of one tensor argument are given with their bodies.
\<close>

datatype 'x attribute = Method "'x option \<Rightarrow> error + embedding" | Other_attribute

definition VoxelCLIP_attributes ::
  "('v \<Rightarrow> 'x option \<Rightarrow> error + embedding) \<Rightarrow> ('e \<Rightarrow> 'x option \<Rightarrow> error + embedding)
     \<Rightarrow> ('v, 'e) VoxelCLIP \<Rightarrow> (string \<times> 'x attribute) list" where
  "VoxelCLIP_attributes run_visual run_voxel self =
     [(''__init__'', Other_attribute),
      (''init_parameters'', Other_attribute),
      (''lock_image_tower'', Other_attribute),
      (''encode_image'', Method (VoxelCLIP_encode_image run_visual self)),
      (''encode_voxel'', Method (VoxelCLIP_encode_voxel run_voxel self)),
      (''forward'', Other_attribute),
      (''visual'', Other_attribute),
      (''voxel_type'', Other_attribute),
      (''voxel_encoder'', Other_attribute),
      (''logit_scale'', Other_attribute)]"

definition VoxelCLIP_call ::
  "('v \<Rightarrow> 'x option \<Rightarrow> error + embedding) \<Rightarrow> ('e \<Rightarrow> 'x option \<Rightarrow> error + embedding)
     \<Rightarrow> ('v, 'e) VoxelCLIP \<Rightarrow> string \<Rightarrow> 'x option \<Rightarrow> error + embedding" where
  "VoxelCLIP_call run_visual run_voxel self name arg =
     (case map_of (VoxelCLIP_attributes run_visual run_voxel self) name of
        None \<Rightarrow> Inl (AttributeError (''VoxelCLIP object has no attribute '' @ name))
      | Some Other_attribute \<Rightarrow> Inl (TypeError (name @ '' called with one tensor''))
      | Some (Method f) \<Rightarrow> f arg)"

text \<open>
  \<^verbatim>\<open>VoxelCLIP.forward\<close>, as written: the branch for a missing image calls
  \<^verbatim>\<open>self.encode_text\<close>, the other branches \<^verbatim>\<open>self.encode_image\<close> and \<^verbatim>\<open>self.encode_voxel\<close>.
\<close>

definition VoxelCLIP_forward ::
  "('v \<Rightarrow> 'x option \<Rightarrow> error + embedding) \<Rightarrow> ('e \<Rightarrow> 'x option \<Rightarrow> error + embedding)
     \<Rightarrow> ('v, 'e) VoxelCLIP \<Rightarrow> 'x option \<Rightarrow> 'x option \<Rightarrow> error + forward_output" where
  "VoxelCLIP_forward run_visual run_voxel self img txt =
     (if img = None then
        and_then (VoxelCLIP_call run_visual run_voxel self ''encode_text'' txt)
          (\<lambda>f. Inr (Features f))
      else if txt = None then
        and_then (VoxelCLIP_call run_visual run_voxel self ''encode_image'' img)
          (\<lambda>f. Inr (Features f))
      else
        and_then (VoxelCLIP_call run_visual run_voxel self ''encode_image'' img) (\<lambda>image_features.
          let image_features = F_normalize image_features in
          and_then (VoxelCLIP_call run_visual run_voxel self ''encode_voxel'' txt) (\<lambda>text_features.
            let text_features = F_normalize text_features in
            Inr (Triple image_features text_features (exp (logit_scale self))))))"

section \<open>Properties of forward\<close>

lemma CLIP_forward_image_only:
  "CLIP_forward run_visual run_text self (Some img) None =
     and_then (CLIP_encode_image run_visual self (Some img)) (\<lambda>f. Inr (Features f))"
  by (simp add: CLIP_forward_def)

lemma CLIP_forward_text_only:
  "CLIP_forward run_visual run_text self None (Some txt) =
     and_then (CLIP_encode_text run_text self (Some txt)) (\<lambda>f. Inr (Features f))"
  by (simp add: CLIP_forward_def)

lemma VoxelCLIP_forward_image_only:
  "VoxelCLIP_forward run_visual run_voxel self (Some img) None =
     and_then (VoxelCLIP_encode_image run_visual self (Some img)) (\<lambda>f. Inr (Features f))"
  by (simp add: VoxelCLIP_forward_def VoxelCLIP_call_def VoxelCLIP_attributes_def)

text \<open>
  C1. With the image missing, \<^verbatim>\<open>VoxelCLIP.forward\<close> does not return the voxel encoder's
  output: it looks up \<^verbatim>\<open>encode_text\<close>, which a VoxelCLIP does not have, and raises
  AttributeError, whatever the model and the voxel input are. (The three other cases of
  the claim hold: the lemmas above.)
\<close>

theorem VoxelCLIP_forward_voxel_only_raises:
  "VoxelCLIP_forward run_visual run_voxel self None (Some voxel) =
     Inl (AttributeError ''VoxelCLIP object has no attribute encode_text'')"
  by (simp add: VoxelCLIP_forward_def VoxelCLIP_call_def VoxelCLIP_attributes_def)

subsection \<open>Both inputs present\<close>

lemma sum_sq_nonneg: "0 \<le> sum_list (map (\<lambda>x. x * x) (v::real list))"
  by (induction v) simp_all

lemma sum_sq_div: "sum_list (map (\<lambda>x. x * x / (n * n)) (v::real list)) = sum_list (map (\<lambda>x. x * x) v) / (n * n)"
  by (induction v) (simp_all add: add_divide_distrib)

lemma normalize_eps_pos: "0 < normalize_eps"
  by (simp add: normalize_eps_def)

lemma l2_norm_normalize_row:
  assumes "normalize_eps \<le> l2_norm v"
  shows "l2_norm (normalize_row v) = 1"
proof -
  have pos: "0 < l2_norm v" using assms normalize_eps_pos by linarith
  have m: "max (l2_norm v) normalize_eps = l2_norm v" using assms by simp
  have sq: "l2_norm v * l2_norm v = sum_list (map (\<lambda>x. x * x) v)"
    by (simp add: l2_norm_def sum_sq_nonneg)
  have "sum_list (map (\<lambda>x. x * x) (normalize_row v)) = sum_list (map (\<lambda>x. x * x) v) / (l2_norm v * l2_norm v)"
    by (simp add: normalize_row_def m o_def sum_sq_div)
  also have "\<dots> = 1"
  proof -
    have "l2_norm v * l2_norm v \<noteq> 0" using pos by simp
    then show ?thesis by (simp add: sq [symmetric])
  qed
  finally show ?thesis by (simp add: l2_norm_def)
qed

lemma F_normalize_rows:
  "i < length t \<Longrightarrow> normalize_eps \<le> l2_norm (t ! i) \<Longrightarrow> l2_norm (F_normalize t ! i) = 1"
  by (simp add: F_normalize_def l2_norm_normalize_row)

lemma l2_norm_3_4: "l2_norm [3, 4] = 5"
proof -
  have "sqrt 25 = sqrt (5^2)" by simp
  then show ?thesis unfolding l2_norm_def by (simp del: real_sqrt_eq_iff)
qed

text \<open>
  C2, as stated, fails: a VoxelCLIP whose image tower returns the zero row (its output
  projection is zero, say) gets the zero row back from \<^verbatim>\<open>F.normalize\<close>, which divides by
  \<open>max(norm, eps)\<close>; that row has norm 0, not 1.
\<close>

theorem forward_zero_embedding_not_unit:
  "VoxelCLIP_forward (\<lambda>v x. Inr [[0, 0]]) (\<lambda>m x. Inr [[3, 4]])
      \<lparr>visual = (), logit_scale = 0, voxel_type = ''mlp'', voxel_encoder = ()\<rparr> (Some ()) (Some ())
    = Inr (Triple [[0, 0]] [[3 / 5, 4 / 5]] 1)
   \<and> l2_norm [0, 0] \<noteq> 1"
  by (simp add: VoxelCLIP_forward_def VoxelCLIP_call_def VoxelCLIP_attributes_def
      VoxelCLIP_encode_image_def VoxelCLIP_encode_voxel_def F_normalize_def
      normalize_row_def l2_norm_3_4 normalize_eps_def) (simp add: l2_norm_def)

text \<open>
  C2, amended. With both inputs present and both towers returning, \<^verbatim>\<open>forward\<close> of a CLIP
  and of a VoxelCLIP returns the triple of the normalised image embedding, the normalised
  text (voxel) embedding and \<open>exp logit_scale\<close>, which is positive. Every row of a
  normalised embedding has L2 norm 1 when the raw row's norm is at least
  \<open>eps = 1e-12\<close>.
\<close>

theorem forward_both_present:
  assumes "run_visual (visual c) (Some img) = Inr a"
    and "run_text c (Some tokens) = Inr b"
    and "run_visual' (visual v) (Some img') = Inr a'"
    and "run_voxel (voxel_encoder v) (Some vox) = Inr b'"
  shows "CLIP_forward run_visual run_text c (Some img) (Some tokens)
           = Inr (Triple (F_normalize a) (F_normalize b) (exp (logit_scale c)))
       \<and> VoxelCLIP_forward run_visual' run_voxel v (Some img') (Some vox)
           = Inr (Triple (F_normalize a') (F_normalize b') (exp (logit_scale v)))
       \<and> 0 < exp (logit_scale c) \<and> 0 < exp (logit_scale v)
       \<and> (\<forall>t \<in> {a, b, a', b'}. \<forall>i < length t.
             normalize_eps \<le> l2_norm (t ! i) \<longrightarrow> l2_norm (F_normalize t ! i) = 1)"
  using assms
  by (simp add: CLIP_forward_def CLIP_encode_image_def CLIP_encode_text_def
      VoxelCLIP_forward_def VoxelCLIP_call_def VoxelCLIP_attributes_def
      VoxelCLIP_encode_image_def VoxelCLIP_encode_voxel_def F_normalize_rows)

theorem forward_both_present_witness:
  "CLIP_forward (\<lambda>v x. Inr [[3, 4]]) (\<lambda>m x. Inr [[3, 4]])
      \<lparr>visual = (), logit_scale = 0, context_length = 77, vocab_size = 49408\<rparr> (Some ()) (Some ())
    = Inr (Triple (F_normalize [[3, 4]]) (F_normalize [[3, 4]]) 1)
   \<and> VoxelCLIP_forward (\<lambda>v x. Inr [[3, 4]]) (\<lambda>m x. Inr [[3, 4]])
      \<lparr>visual = (), logit_scale = 0, voxel_type = ''mlp'', voxel_encoder = ()\<rparr> (Some ()) (Some ())
    = Inr (Triple (F_normalize [[3, 4]]) (F_normalize [[3, 4]]) 1)
   \<and> l2_norm (F_normalize [[3, 4]] ! 0) = 1"
  using forward_both_present [where run_visual = "\<lambda>v x. Inr [[3, 4]]" and run_text = "\<lambda>m x. Inr [[3, 4]]"
      and c = "\<lparr>visual = (), logit_scale = 0, context_length = 77, vocab_size = 49408\<rparr>"
      and img = "()" and tokens = "()" and a = "[[3, 4]]" and b = "[[3, 4]]"
      and run_visual' = "\<lambda>v x. Inr [[3, 4]]" and run_voxel = "\<lambda>m x. Inr [[3, 4]]"
      and v = "\<lparr>visual = (), logit_scale = 0, voxel_type = ''mlp'', voxel_encoder = ()\<rparr>"
      and img' = "()" and vox = "()" and a' = "[[3, 4]]" and b' = "[[3, 4]]"]
  by (simp add: l2_norm_3_4 normalize_eps_def)

section \<open>Construction of a VoxelCLIP\<close>

text \<open>
  Configuration values. The vision configuration is the dataclass \<^verbatim>\<open>CLIPVisionCfg\<close>; the
  voxel sub-configurations are read with \<^verbatim>\<open>cfg["key"]\<close>, so they are dictionaries of
  Python values. A tuple and a list are both \<open>PyList\<close>.
\<close>

datatype pyval = PyNone | PyInt int | PyFloat real | PyStr string | PyList "pyval list"

type_synonym pydict = "(string \<times> pyval) list"

definition getitem :: "pydict \<Rightarrow> string \<Rightarrow> error + pyval" where
  "getitem d k = (case map_of d k of None \<Rightarrow> Inl (KeyError k) | Some v \<Rightarrow> Inr v)"

definition int_floordiv :: "int \<Rightarrow> int \<Rightarrow> error + int" where
  "int_floordiv a b =
     (if b = 0 then Inl (ZeroDivisionError ''integer division or modulo by zero'')
      else Inr (a div b))"

fun py_floordiv :: "pyval \<Rightarrow> pyval \<Rightarrow> error + pyval" where
  "py_floordiv (PyInt a) (PyInt b) = and_then (int_floordiv a b) (\<lambda>q. Inr (PyInt q))"
| "py_floordiv (PyFloat a) (PyFloat b) =
     (if b = 0 then Inl (ZeroDivisionError ''float floor division by zero'')
      else Inr (PyFloat (of_int \<lfloor>a / b\<rfloor>)))"
| "py_floordiv (PyInt a) (PyFloat b) =
     (if b = 0 then Inl (ZeroDivisionError ''float floor division by zero'')
      else Inr (PyFloat (of_int \<lfloor>of_int a / b\<rfloor>)))"
| "py_floordiv (PyFloat a) (PyInt b) =
     (if b = 0 then Inl (ZeroDivisionError ''float floor division by zero'')
      else Inr (PyFloat (of_int \<lfloor>a / of_int b\<rfloor>)))"
| "py_floordiv _ _ = Inl (TypeError ''unsupported operand type(s) for //'')"

record CLIPVisionCfg =
  layers :: pyval
  width :: int
  head_width :: int
  mlp_ratio :: real
  patch_size :: pyval
  image_size :: pyval
  timm_model_name :: "string option"
  timm_model_pretrained :: bool
  timm_pool :: string
  timm_proj :: string

record CLIPVoxelCfg =
  config_mlp :: "pydict option"
  config_2d_visual_transformer :: "pydict option"
  config_3d_conv :: "pydict option"
  config_3d_transformer :: "pydict option"

text \<open>
  A tower is recorded as the constructor call that builds it, arguments in the order of
  the constructor's signature. Running the call is the runtime's: it allocates and draws
  the weights and returns the module, or it raises (\<^verbatim>\<open>nn.MultiheadAttention\<close>, for one,
  asserts that the width is a multiple of the number of heads). The parameters
  \<open>new_visual\<close> and \<open>new_voxel\<close> below are that step, for the vision towers and for the
  voxel encoders.
\<close>

datatype act_layer = QuickGELU | GELU

datatype visual_module =
    TimmModel string bool string string int pyval
  | ModifiedResNet pyval int int pyval int
  | VisualTransformer pyval pyval int pyval int real int act_layer

datatype voxel_module =
    MLP pyval int pyval pyval act_layer
  | NewVoxel3dConvEncoder pyval int int bool act_layer
  | EmbeddingVoxel3dConvEncoder pyval int int pyval int act_layer
  | Voxel2DVisualTransformer pyval pyval pyval pyval pyval pyval int act_layer pyval pyval real
  | VisualTransformer3d "int list" int int int int real int act_layer real
  | FlatTransformer int int int real int act_layer real

text \<open>
  The first \<^verbatim>\<open>if\<close> chain of \<^verbatim>\<open>VoxelCLIP.__init__\<close>: the vision tower, and the activation
  the rest of the constructor uses.
\<close>

definition build_visual ::
  "(visual_module \<Rightarrow> error + visual_module) \<Rightarrow> int \<Rightarrow> CLIPVisionCfg \<Rightarrow> act_layer
     \<Rightarrow> error + (visual_module \<times> act_layer)" where
  "build_visual new_visual embed_dim vision_cfg act =
     (if timm_model_name vision_cfg \<noteq> None \<and> timm_model_name vision_cfg \<noteq> Some [] then
        and_then
          (new_visual
             (TimmModel (the (timm_model_name vision_cfg)) (timm_model_pretrained vision_cfg)
                (timm_pool vision_cfg) (timm_proj vision_cfg) embed_dim (image_size vision_cfg)))
          (\<lambda>m. Inr (m, GELU))
      else if (case layers vision_cfg of PyList _ \<Rightarrow> True | _ \<Rightarrow> False) then
        and_then (int_floordiv (width vision_cfg * 32) (head_width vision_cfg)) (\<lambda>vision_heads.
        and_then
          (new_visual
             (ModifiedResNet (layers vision_cfg) embed_dim vision_heads (image_size vision_cfg)
                (width vision_cfg)))
          (\<lambda>m. Inr (m, act)))
      else
        and_then (int_floordiv (width vision_cfg) (head_width vision_cfg)) (\<lambda>vision_heads.
        and_then
          (new_visual
             (VisualTransformer (image_size vision_cfg) (patch_size vision_cfg) (width vision_cfg)
                (layers vision_cfg) vision_heads (mlp_ratio vision_cfg) embed_dim act))
          (\<lambda>m. Inr (m, act))))"

text \<open>The second chain: the dispatch on the discriminator string \<^verbatim>\<open>voxel_type\<close>.\<close>

definition build_voxel_encoder ::
  "(voxel_module \<Rightarrow> error + voxel_module) \<Rightarrow> string \<Rightarrow> CLIPVoxelCfg \<Rightarrow> int \<Rightarrow> act_layer
     \<Rightarrow> error + voxel_module" where
  "build_voxel_encoder new_voxel vtype voxel_cfg embed_dim act =
     (if vtype = ''mlp'' then
        (case config_mlp voxel_cfg of
           None \<Rightarrow> Inl (AssertionError ''config_mlp is required for voxel_type=flat'')
         | Some cfg \<Rightarrow>
             and_then (getitem cfg ''voxel_dim'') (\<lambda>voxel_dim.
             and_then (getitem cfg ''layer_width'') (\<lambda>layer_width.
             and_then (getitem cfg ''layers'') (\<lambda>num_layers.
               new_voxel (MLP voxel_dim embed_dim layer_width num_layers act)))))
      else if vtype = ''3d-conv'' then
        (case config_3d_conv voxel_cfg of
           None \<Rightarrow> Inl (AssertionError ''config_3d_conv is required for voxel_type=3d'')
         | Some cfg \<Rightarrow>
             and_then (getitem cfg ''dims'') (\<lambda>dims.
               new_voxel (NewVoxel3dConvEncoder dims 64 embed_dim False act)))
      else if vtype = ''embedding-3d-conv'' then
        (case config_3d_conv voxel_cfg of
           None \<Rightarrow> Inl (AssertionError ''config_3d_conv is required for voxel_type=3d'')
         | Some cfg \<Rightarrow>
             and_then (getitem cfg ''dims'') (\<lambda>dims.
             and_then (getitem cfg ''vocab_size'') (\<lambda>vocab.
               new_voxel (EmbeddingVoxel3dConvEncoder dims 64 64 vocab embed_dim act))))
      else if vtype = ''3d-vision-transformer'' then
        (case config_2d_visual_transformer voxel_cfg of
           None \<Rightarrow> Inl (AssertionError
                     ''config_2d_visual_transformer is required for voxel_type=3d'')
         | Some cfg \<Rightarrow>
             and_then (getitem cfg ''width'') (\<lambda>w0.
             and_then (getitem cfg ''head_width'') (\<lambda>hw.
             and_then (py_floordiv w0 hw) (\<lambda>vision_heads.
             and_then (getitem cfg ''image_size'') (\<lambda>isz.
             and_then (getitem cfg ''patch_size'') (\<lambda>psz.
             and_then (getitem cfg ''width'') (\<lambda>w.
             and_then (getitem cfg ''layers'') (\<lambda>ls.
             and_then (getitem cfg ''mlp_ratio'') (\<lambda>ratio.
             and_then (getitem cfg ''channels'') (\<lambda>channels.
             and_then (getitem cfg ''channel_dim'') (\<lambda>channel_dim.
               new_voxel (Voxel2DVisualTransformer isz psz w ls vision_heads ratio embed_dim act
                      channels channel_dim (2 / 10)))))))))))))
      else if vtype = ''3d-transformer'' then
        (case config_3d_transformer voxel_cfg of
           None \<Rightarrow> Inl (AssertionError ''config_3d_transformer is required for voxel_type=3d'')
         | Some cfg \<Rightarrow>
             new_voxel (VisualTransformer3d [42, 46, 61] 8 1408 14 8 (43637 / 10000) embed_dim act
                    (4 / 10)))
      else if vtype = ''flat-transformer'' then
        new_voxel (FlatTransformer 512 4 8 4 embed_dim act (4 / 10))
      else
        Inl (ValueError (''Invalid voxel type: '' @ vtype)))"

text \<open>
  \<^verbatim>\<open>VoxelCLIP.init_parameters\<close>. Re-drawing weights changes no field of this model. Of the
  voxel encoders only \<^verbatim>\<open>MLP\<close> has the attribute \<^verbatim>\<open>layers\<close> that the branch for
  \<^verbatim>\<open>"flat"\<close> iterates over.
\<close>

definition VoxelCLIP_init_parameters ::
  "(visual_module, voxel_module) VoxelCLIP \<Rightarrow> error + (visual_module, voxel_module) VoxelCLIP" where
  "VoxelCLIP_init_parameters self =
     (let self = self\<lparr>logit_scale := ln (1 / (7 / 100))\<rparr> in
      if voxel_type self = ''flat'' then
        (case voxel_encoder self of
           MLP _ _ _ _ _ \<Rightarrow> Inr self
         | _ \<Rightarrow> Inl (AttributeError ''voxel encoder object has no attribute layers''))
      else if voxel_type self = ''3d'' then Inr self
      else if voxel_type self = ''3d-flat'' then
        Inl (NotImplementedError ''3D flat voxel encoder initializer not implemented'')
      else Inr self)"

definition default_voxel_type :: string where
  "default_voxel_type = ''flat''"

definition VoxelCLIP_init ::
  "(visual_module \<Rightarrow> error + visual_module) \<Rightarrow> (voxel_module \<Rightarrow> error + voxel_module)
     \<Rightarrow> int \<Rightarrow> CLIPVisionCfg \<Rightarrow> CLIPVoxelCfg \<Rightarrow> bool \<Rightarrow> string
     \<Rightarrow> error + (visual_module, voxel_module) VoxelCLIP" where
  "VoxelCLIP_init new_visual new_voxel embed_dim vision_cfg voxel_cfg quick_gelu vtype =
     (let act = (if quick_gelu then QuickGELU else GELU) in
      and_then (build_visual new_visual embed_dim vision_cfg act) (\<lambda>built.
      and_then (build_voxel_encoder new_voxel vtype voxel_cfg embed_dim (snd built)) (\<lambda>encoder.
        VoxelCLIP_init_parameters
          \<lparr>visual = fst built, logit_scale = ln (1 / (7 / 100)),
           voxel_type = vtype, voxel_encoder = encoder\<rparr>)))"

text \<open>The discriminator values for which the dispatch has a branch.\<close>

definition accepted_voxel_types :: "string list" where
  "accepted_voxel_types =
     [''mlp'', ''3d-conv'', ''embedding-3d-conv'', ''3d-vision-transformer'',
      ''3d-transformer'', ''flat-transformer'']"

text \<open>Python's \<^verbatim>\<open>needle in haystack\<close> on strings.\<close>

fun contains :: "string \<Rightarrow> string \<Rightarrow> bool" where
  "contains needle [] = (needle = [])"
| "contains needle (c # cs) = (take (length needle) (c # cs) = needle \<or> contains needle cs)"

text \<open>The dataclasses' default values.\<close>

definition CLIPVisionCfg_default :: CLIPVisionCfg where
  "CLIPVisionCfg_default = \<lparr>layers = PyInt 12, width = 768, head_width = 64, mlp_ratio = 4,
     patch_size = PyInt 16, image_size = PyInt 224, timm_model_name = None,
     timm_model_pretrained = False, timm_pool = ''avg'', timm_proj = ''linear''\<rparr>"

definition CLIPVoxelCfg_default :: CLIPVoxelCfg where
  "CLIPVoxelCfg_default = \<lparr>config_mlp = None, config_2d_visual_transformer = None,
     config_3d_conv = None, config_3d_transformer = None\<rparr>"

text \<open>
  An instance of the runtime's constructors, for the configurations used below: building
  a vision transformer of at least one layer raises the assertion of
  \<^verbatim>\<open>nn.MultiheadAttention\<close> unless the number of heads is positive and divides the width;
  every other call returns its module.
\<close>

definition example_new_visual :: "visual_module \<Rightarrow> error + visual_module" where
  "example_new_visual m =
     (case m of
        VisualTransformer isz psz w ls heads ratio out act \<Rightarrow>
          if (case ls of PyInt n \<Rightarrow> 0 < n | _ \<Rightarrow> False) \<and> (heads \<le> 0 \<or> w mod heads \<noteq> 0)
          then Inl (AssertionError ''embed_dim must be divisible by num_heads'')
          else Inr m
      | _ \<Rightarrow> Inr m)"

definition example_new_voxel :: "voxel_module \<Rightarrow> error + voxel_module" where
  "example_new_voxel m = Inr m"

section \<open>Properties of the construction\<close>

lemma contains_append: "contains v (p @ v)"
proof (induction p)
  case Nil
  show ?case by (cases v) simp_all
next
  case (Cons c p)
  then show ?case by simp
qed

lemma build_voxel_encoder_invalid:
  "vtype \<notin> set accepted_voxel_types \<Longrightarrow>
   build_voxel_encoder new_voxel vtype voxel_cfg embed_dim act
     = Inl (ValueError (''Invalid voxel type: '' @ vtype))"
  by (simp add: accepted_voxel_types_def build_voxel_encoder_def)

lemma build_visual_default:
  "build_visual example_new_visual 512 CLIPVisionCfg_default GELU
     = Inr (VisualTransformer (PyInt 224) (PyInt 16) 768 (PyInt 12) 12 4 512 GELU, GELU)"
  by (simp add: build_visual_def CLIPVisionCfg_default_def int_floordiv_def example_new_visual_def)

text \<open>
  The vision tower is built before the discriminator is looked at, so an exception of
  its construction is the constructor's, whatever the discriminator is: a
  \<^verbatim>\<open>head_width\<close> of 0 raises in the division, one of 100 gives 7 heads for the width 768
  and the attention layer's assertion.
\<close>

lemma VoxelCLIP_init_vision_tower_first:
  "VoxelCLIP_init new_visual new_voxel 512 (CLIPVisionCfg_default\<lparr>head_width := 0\<rparr>)
       CLIPVoxelCfg_default False ''3d''
     = Inl (ZeroDivisionError ''integer division or modulo by zero'')"
  "VoxelCLIP_init example_new_visual new_voxel 512 (CLIPVisionCfg_default\<lparr>head_width := 100\<rparr>)
       CLIPVoxelCfg_default False ''3d''
     = Inl (AssertionError ''embed_dim must be divisible by num_heads'')"
  by (simp_all add: VoxelCLIP_init_def build_visual_def CLIPVisionCfg_default_def int_floordiv_def
      example_new_visual_def)

text \<open>
  C3. Let the discriminator string not be one of the accepted variants. Then the dispatch
  raises ValueError \<^verbatim>\<open>Invalid voxel type: <value>\<close>, whose message contains the value, and
  builds no voxel encoder, for every configuration and every runtime. Construction
  of the VoxelCLIP fails with that error as soon as it reaches the dispatch, that is,
  whenever the vision tower has been built; an exception raised while building the
  vision tower (another argument being invalid) comes first.
\<close>

theorem VoxelCLIP_init_invalid_type:
  assumes "vtype \<notin> set accepted_voxel_types"
  shows "build_voxel_encoder new_voxel vtype voxel_cfg embed_dim act
           = Inl (ValueError (''Invalid voxel type: '' @ vtype))
       \<and> contains vtype (message (ValueError (''Invalid voxel type: '' @ vtype)))
       \<and> VoxelCLIP_init new_visual new_voxel embed_dim vision_cfg voxel_cfg quick_gelu vtype
           = (case build_visual new_visual embed_dim vision_cfg (if quick_gelu then QuickGELU else GELU) of
                Inl e \<Rightarrow> Inl e
              | Inr built \<Rightarrow> Inl (ValueError (''Invalid voxel type: '' @ vtype)))"
proof -
  have d: "\<And>act. build_voxel_encoder new_voxel vtype voxel_cfg embed_dim act
                  = Inl (ValueError (''Invalid voxel type: '' @ vtype))"
    using assms by (rule build_voxel_encoder_invalid)
  have c: "VoxelCLIP_init new_visual new_voxel embed_dim vision_cfg voxel_cfg quick_gelu vtype
           = (case build_visual new_visual embed_dim vision_cfg (if quick_gelu then QuickGELU else GELU) of
                Inl e \<Rightarrow> Inl e
              | Inr built \<Rightarrow> Inl (ValueError (''Invalid voxel type: '' @ vtype)))"
    by (cases "build_visual new_visual embed_dim vision_cfg (if quick_gelu then QuickGELU else GELU)")
       (simp_all add: VoxelCLIP_init_def d Let_def)
  have m: "contains vtype (message (ValueError (''Invalid voxel type: '' @ vtype)))"
    unfolding message.simps by (rule contains_append)
  from d c m show ?thesis by blast
qed

theorem VoxelCLIP_init_invalid_type_witness:
  "''3d'' \<notin> set accepted_voxel_types
   \<and> VoxelCLIP_init example_new_visual example_new_voxel 512 CLIPVisionCfg_default
        CLIPVoxelCfg_default False ''3d''
       = Inl (ValueError ''Invalid voxel type: 3d'')
   \<and> contains ''3d'' ''Invalid voxel type: 3d''"
proof -
  have n: "''3d'' \<notin> set accepted_voxel_types" by (simp add: accepted_voxel_types_def)
  from VoxelCLIP_init_invalid_type [OF n, of example_new_voxel CLIPVoxelCfg_default 512 GELU
      example_new_visual CLIPVisionCfg_default False] build_visual_default n
  show ?thesis by simp
qed

text \<open>
  C10. The default discriminator \<^verbatim>\<open>"flat"\<close> is not an accepted variant, so constructing a
  VoxelCLIP without \<^verbatim>\<open>voxel_type\<close> fails for every configuration: the dispatch takes the
  invalid-discriminator branch. The assertion message of the \<^verbatim>\<open>"mlp"\<close> branch and
  \<^verbatim>\<open>init_parameters\<close> still refer to \<^verbatim>\<open>"flat"\<close> (the latter has a branch for it, which reads
  an attribute only the MLP encoder has).
\<close>

theorem VoxelCLIP_init_default_fails:
  "default_voxel_type \<notin> set accepted_voxel_types
   \<and> (\<exists>e. VoxelCLIP_init new_visual new_voxel embed_dim vision_cfg voxel_cfg quick_gelu
             default_voxel_type = Inl e)
   \<and> build_voxel_encoder new_voxel default_voxel_type voxel_cfg embed_dim act
        = Inl (ValueError ''Invalid voxel type: flat'')
   \<and> build_voxel_encoder new_voxel ''mlp'' (voxel_cfg\<lparr>config_mlp := None\<rparr>) embed_dim act
        = Inl (AssertionError ''config_mlp is required for voxel_type=flat'')
   \<and> VoxelCLIP_init_parameters
        \<lparr>visual = vis, logit_scale = l, voxel_type = ''flat'', voxel_encoder = FlatTransformer 512 4 8 4 embed_dim act (4 / 10)\<rparr>
        = Inl (AttributeError ''voxel encoder object has no attribute layers'')"
proof -
  have n: "default_voxel_type \<notin> set accepted_voxel_types"
    by (simp add: default_voxel_type_def accepted_voxel_types_def)
  have d: "\<And>act. build_voxel_encoder new_voxel default_voxel_type voxel_cfg embed_dim act
        = Inl (ValueError ''Invalid voxel type: flat'')"
    using build_voxel_encoder_invalid [OF n] by (simp add: default_voxel_type_def)
  have a: "\<exists>e. VoxelCLIP_init new_visual new_voxel embed_dim vision_cfg voxel_cfg quick_gelu
             default_voxel_type = Inl e"
    by (cases "build_visual new_visual embed_dim vision_cfg (if quick_gelu then QuickGELU else GELU)")
       (simp_all add: VoxelCLIP_init_def d Let_def)
  show ?thesis using n d a
    by (simp add: build_voxel_encoder_def VoxelCLIP_init_parameters_def)
qed

theorem VoxelCLIP_init_default_fails_witness:
  "VoxelCLIP_init example_new_visual example_new_voxel 512 CLIPVisionCfg_default
       CLIPVoxelCfg_default False default_voxel_type
     = Inl (ValueError ''Invalid voxel type: flat'')"
proof -
  from VoxelCLIP_init_default_fails [of example_new_visual example_new_voxel 512
      CLIPVisionCfg_default CLIPVoxelCfg_default False GELU]
  have "build_voxel_encoder example_new_voxel default_voxel_type CLIPVoxelCfg_default 512 GELU
        = Inl (ValueError ''Invalid voxel type: flat'')" by simp
  then show ?thesis
    by (simp add: VoxelCLIP_init_def build_visual_default)
qed

section \<open>Tensors\<close>

text \<open>
  A tensor is its shape and its elements in row-major order, as a contiguous tensor of
  the runtime is. \<open>ravel\<close> is the offset of a multi-index, \<open>unravel\<close> its inverse;
  \<open>tabulate\<close> builds the tensor of a shape from a function of the multi-index.
\<close>

record 'a tensor =
  shape :: "nat list"
  data :: "'a list"

fun ravel :: "nat list \<Rightarrow> nat list \<Rightarrow> nat" where
  "ravel (n # ns) (i # is) = i * prod_list ns + ravel ns is"
| "ravel _ _ = 0"

fun unravel :: "nat list \<Rightarrow> nat \<Rightarrow> nat list" where
  "unravel [] k = []"
| "unravel (n # ns) k = (k div prod_list ns) # unravel ns (k mod prod_list ns)"

definition tabulate :: "nat list \<Rightarrow> (nat list \<Rightarrow> 'a) \<Rightarrow> 'a tensor" where
  "tabulate s f = \<lparr>shape = s, data = map (\<lambda>k. f (unravel s k)) [0..<prod_list s]\<rparr>"

definition tensor_at :: "'a tensor \<Rightarrow> nat list \<Rightarrow> 'a" where
  "tensor_at t idx = data t ! ravel (shape t) idx"

definition valid_index :: "nat list \<Rightarrow> nat list \<Rightarrow> bool" where
  "valid_index s idx = list_all2 (\<lambda>n i. i < n) s idx"

definition wf_tensor :: "'a tensor \<Rightarrow> bool" where
  "wf_tensor t = (length (data t) = prod_list (shape t))"

lemma ravel_less: "list_all2 (\<lambda>n i. i < n) s idx \<Longrightarrow> ravel s idx < prod_list s"
proof (induction s idx rule: list_all2_induct)
  case Nil
  show ?case by simp
next
  case (Cons n ns i "is")
  have "i * prod_list ns + ravel ns is < i * prod_list ns + prod_list ns"
    using Cons.IH by simp
  also have "\<dots> = Suc i * prod_list ns" by simp
  also have "\<dots> \<le> n * prod_list ns"
    using Cons.hyps(1) by (intro mult_le_mono1) simp
  finally show ?case by simp
qed

lemma unravel_ravel: "list_all2 (\<lambda>n i. i < n) s idx \<Longrightarrow> unravel s (ravel s idx) = idx"
proof (induction s idx rule: list_all2_induct)
  case Nil
  show ?case by simp
next
  case (Cons n ns i "is")
  have r: "ravel ns is < prod_list ns" using Cons.hyps(2) by (rule ravel_less)
  then show ?case using Cons.IH by simp
qed

lemma shape_tabulate [simp]: "shape (tabulate s f) = s"
  by (simp add: tabulate_def)

lemma wf_tabulate [simp]: "wf_tensor (tabulate s f)"
  by (simp add: tabulate_def wf_tensor_def)

lemma at_tabulate: "valid_index s idx \<Longrightarrow> tensor_at (tabulate s f) idx = f idx"
  by (simp add: tensor_at_def tabulate_def valid_index_def ravel_less unravel_ravel)

section \<open>The causal attention mask (CLIP.build_attention_mask)\<close>

text \<open>
  Elements of the mask are floats with the infinities. \<^verbatim>\<open>torch.empty\<close> returns
  uninitialised memory: its contents are the parameter \<open>garbage\<close>. \<^verbatim>\<open>fill_\<close> overwrites
  every element; \<^verbatim>\<open>triu_(k)\<close> keeps the elements of the last two dimensions on and above
  the \<open>k\<close>-th diagonal and writes zero elsewhere.
\<close>

datatype fval = NegInf | Finite real | PosInf | NaN

definition torch_empty :: "(nat list \<Rightarrow> 'a) \<Rightarrow> nat list \<Rightarrow> 'a tensor" where
  "torch_empty garbage s = tabulate s garbage"

definition fill_inplace :: "'a tensor \<Rightarrow> 'a \<Rightarrow> 'a tensor" where
  "fill_inplace t v = t\<lparr>data := map (\<lambda>_. v) (data t)\<rparr>"

definition triu_inplace :: "fval tensor \<Rightarrow> int \<Rightarrow> error + fval tensor" where
  "triu_inplace t diagonal =
     (if length (shape t) < 2 then Inl (RuntimeError ''triu: input tensor must have at least 2 dimensions'')
      else Inr (tabulate (shape t) (\<lambda>idx.
             let n = length idx in
             if diagonal \<le> int (idx ! (n - 1)) - int (idx ! (n - 2)) then tensor_at t idx else Finite 0)))"

definition build_attention_mask :: "(nat list \<Rightarrow> fval) \<Rightarrow> int \<Rightarrow> error + fval tensor" where
  "build_attention_mask garbage ctx_len =
     (if ctx_len < 0 then Inl (RuntimeError ''Trying to create tensor with negative dimension'')
      else
        let mask = torch_empty garbage [nat ctx_len, nat ctx_len];
            mask = fill_inplace mask NegInf
        in triu_inplace mask 1)"

text \<open>
  \<^verbatim>\<open>register_buffer(name, tensor, persistent)\<close> of \<^verbatim>\<open>nn.Module\<close>: a module keeps its
  trainable parameters and its buffers in separate dictionaries; a buffer is not returned
  by \<^verbatim>\<open>parameters()\<close>, and a non-persistent one is left out of the state dict. The call
  raises KeyError when the name is already an attribute that is not a buffer.
  \<open>CLIP_register_attn_mask\<close> is the statement
  \<^verbatim>\<open>self.register_buffer('attn_mask', self.build_attention_mask(), persistent=False)\<close>
  of \<^verbatim>\<open>CLIP.__init__\<close>.
\<close>

record 't registry =
  parameters :: "string \<rightharpoonup> 't"
  buffers :: "string \<rightharpoonup> 't"
  non_persistent_buffers :: "string set"

definition register_buffer :: "string \<Rightarrow> 't \<Rightarrow> bool \<Rightarrow> 't registry \<Rightarrow> error + 't registry" where
  "register_buffer name t persistent reg =
     (if name \<in> dom (parameters reg) then Inl (KeyError (''attribute already exists: '' @ name))
      else Inr (reg\<lparr>buffers := (buffers reg)(name \<mapsto> t),
                     non_persistent_buffers :=
                       (if persistent then non_persistent_buffers reg - {name}
                        else insert name (non_persistent_buffers reg))\<rparr>))"

definition CLIP_register_attn_mask ::
  "(nat list \<Rightarrow> fval) \<Rightarrow> int \<Rightarrow> fval tensor registry \<Rightarrow> error + fval tensor registry" where
  "CLIP_register_attn_mask garbage ctx_len reg =
     and_then (build_attention_mask garbage ctx_len) (\<lambda>mask.
       register_buffer ''attn_mask'' mask False reg)"

text \<open>The mask as the specification words it: minus infinity strictly above the diagonal, zero elsewhere.\<close>

definition causal_mask :: "nat \<Rightarrow> fval tensor" where
  "causal_mask L = tabulate [L, L] (\<lambda>idx. if idx ! 0 < idx ! 1 then NegInf else Finite 0)"

lemma at_fill: "valid_index s idx \<Longrightarrow> tensor_at (fill_inplace (tabulate s f) v) idx = v"
  by (simp add: tensor_at_def fill_inplace_def tabulate_def valid_index_def ravel_less)

lemma unravel_valid: "k < prod_list s \<Longrightarrow> valid_index s (unravel s k)"
  unfolding valid_index_def
proof (induction s arbitrary: k)
  case Nil
  show ?case by simp
next
  case (Cons n ns)
  have pos: "0 < prod_list ns" using Cons.prems by (cases "prod_list ns = 0") simp_all
  have "k div prod_list ns < n" using Cons.prems pos
    by (simp add: less_mult_imp_div_less mult.commute)
  moreover have "k mod prod_list ns < prod_list ns" using pos by simp
  ultimately show ?case using Cons.IH by simp
qed

lemma tabulate_cong:
  "(\<And>idx. valid_index s idx \<Longrightarrow> f idx = f' idx) \<Longrightarrow> tabulate s f = tabulate s f'"
  by (simp add: tabulate_def unravel_valid)

lemma valid_index_2: "valid_index [a, b] idx = (\<exists>i j. idx = [i, j] \<and> i < a \<and> j < b)"
  by (auto simp: valid_index_def list_all2_Cons1)

lemma shape_fill [simp]: "shape (fill_inplace t v) = shape t"
  by (simp add: fill_inplace_def)

lemma shape_torch_empty [simp]: "shape (torch_empty g s) = s"
  by (simp add: torch_empty_def)

lemma build_attention_mask_eq:
  assumes "0 \<le> c"
  shows "build_attention_mask g c = Inr (causal_mask (nat c))"
proof -
  let ?L = "nat c"
  let ?filled = "fill_inplace (torch_empty g [?L, ?L]) NegInf"
  have "tabulate [?L, ?L] (\<lambda>idx. let n = length idx in
            if 1 \<le> int (idx ! (n - 1)) - int (idx ! (n - 2)) then tensor_at ?filled idx else Finite 0)
      = causal_mask ?L"
    unfolding causal_mask_def
  proof (rule tabulate_cong)
    fix idx assume v: "valid_index [?L, ?L] idx"
    then obtain i j where ij: "idx = [i, j]" by (auto simp: valid_index_2)
    have "tensor_at ?filled idx = NegInf"
      unfolding torch_empty_def using v by (rule at_fill)
    then show "(let n = length idx in
            if 1 \<le> int (idx ! (n - 1)) - int (idx ! (n - 2)) then tensor_at ?filled idx else Finite 0)
        = (if idx ! 0 < idx ! 1 then NegInf else Finite 0)"
      by (auto simp: ij)
  qed
  then show ?thesis using assms
    by (simp add: build_attention_mask_def triu_inplace_def Let_def)
qed

text \<open>
  C6. For a context length \<open>L \<ge> 1\<close> the mask built at CLIP construction is an \<open>L\<close> by
  \<open>L\<close> matrix whose entry \<open>(i, j)\<close> is minus infinity exactly when \<open>j > i\<close> and zero
  exactly when \<open>j \<le> i\<close>. It depends on \<open>L\<close> only (not on what \<^verbatim>\<open>torch.empty\<close> returned),
  and it is stored as a non-persistent buffer, leaving the trainable parameters as they
  were.
\<close>

theorem attention_mask_causal:
  assumes "1 \<le> L"
  shows "\<exists>m. (\<forall>garbage. build_attention_mask garbage L = Inr m)
       \<and> shape m = [nat L, nat L]
       \<and> (\<forall>i < nat L. \<forall>j < nat L.
            (tensor_at m [i, j] = NegInf \<longleftrightarrow> i < j) \<and> (tensor_at m [i, j] = Finite 0 \<longleftrightarrow> j \<le> i))
       \<and> (\<forall>garbage reg. ''attn_mask'' \<notin> dom (parameters reg) \<longrightarrow>
            (\<exists>reg'. CLIP_register_attn_mask garbage L reg = Inr reg'
               \<and> buffers reg' ''attn_mask'' = Some m
               \<and> ''attn_mask'' \<in> non_persistent_buffers reg'
               \<and> parameters reg' = parameters reg))"
proof -
  let ?m = "causal_mask (nat L)"
  have a: "\<forall>garbage. build_attention_mask garbage L = Inr ?m"
    using assms by (simp add: build_attention_mask_eq)
  have b: "shape ?m = [nat L, nat L]" by (simp add: causal_mask_def)
  have c: "\<forall>i < nat L. \<forall>j < nat L.
      (tensor_at ?m [i, j] = NegInf \<longleftrightarrow> i < j) \<and> (tensor_at ?m [i, j] = Finite 0 \<longleftrightarrow> j \<le> i)"
    by (auto simp: causal_mask_def at_tabulate valid_index_2)
  have d: "\<forall>garbage reg. ''attn_mask'' \<notin> dom (parameters reg) \<longrightarrow>
      (\<exists>reg'. CLIP_register_attn_mask garbage L reg = Inr reg'
               \<and> buffers reg' ''attn_mask'' = Some ?m
               \<and> ''attn_mask'' \<in> non_persistent_buffers reg'
               \<and> parameters reg' = parameters reg)"
    using assms by (simp add: CLIP_register_attn_mask_def build_attention_mask_eq register_buffer_def)
  from a b c d show ?thesis by blast
qed


lemma mask_2_value:
  "build_attention_mask (\<lambda>_. NaN) 2
     = Inr \<lparr>shape = [2, 2], data = [Finite 0, NegInf, Finite 0, Finite 0]\<rparr>"
  by (simp add: build_attention_mask_def triu_inplace_def torch_empty_def fill_inplace_def
      tabulate_def tensor_at_def Let_def upt_rec [of _ "numeral _"] nth_Cons')

theorem attention_mask_causal_witness:
  "build_attention_mask (\<lambda>_. NaN) 2
     = Inr \<lparr>shape = [2, 2], data = [Finite 0, NegInf, Finite 0, Finite 0]\<rparr>
   \<and> tensor_at \<lparr>shape = [2, 2], data = [Finite 0, NegInf, Finite 0, Finite 0]\<rparr> [0, 1] = NegInf
   \<and> tensor_at \<lparr>shape = [2, 2], data = [Finite 0, NegInf, Finite 0, Finite 0]\<rparr> [1, 0] = Finite 0"
proof -
  have l: "(1::int) \<le> 2" by simp
  from attention_mask_causal [OF l] obtain m where
    m: "\<forall>garbage. build_attention_mask garbage 2 = Inr m"
    and c: "\<forall>i < nat 2. \<forall>j < nat 2.
            (tensor_at m [i, j] = NegInf \<longleftrightarrow> i < j) \<and> (tensor_at m [i, j] = Finite 0 \<longleftrightarrow> j \<le> i)"
    by blast
  from m have e: "m = \<lparr>shape = [2, 2], data = [Finite 0, NegInf, Finite 0, Finite 0]\<rparr>"
    using mask_2_value by simp
  from c have "tensor_at m [0, 1] = NegInf" "tensor_at m [1, 0] = Finite 0" by simp_all
  then show ?thesis using e mask_2_value by simp
qed

section \<open>The sequence transformer (class FlatTransformer)\<close>

text \<open>
  Indexing and reshaping move data and are modelled: \<^verbatim>\<open>x[..., k]\<close>, \<^verbatim>\<open>unsqueeze(d)\<close>,
  \<^verbatim>\<open>permute(dims)\<close>, \<^verbatim>\<open>t.repeat(n, m)\<close> and \<^verbatim>\<open>e[:, k, :]\<close>, each raising as the runtime does
  on a shape it does not accept.
\<close>

definition select_last :: "nat \<Rightarrow> 'a tensor \<Rightarrow> error + 'a tensor" where
  "select_last k t =
     (if shape t = [] then Inl (IndexError ''too many indices for tensor of dimension 0'')
      else if last (shape t) \<le> k then Inl (IndexError ''index out of range'')
      else Inr (tabulate (butlast (shape t)) (\<lambda>idx. tensor_at t (idx @ [k]))))"

definition unsqueeze :: "nat \<Rightarrow> 'a tensor \<Rightarrow> error + 'a tensor" where
  "unsqueeze d t =
     (if length (shape t) < d then Inl (IndexError ''Dimension out of range'')
      else Inr (t\<lparr>shape := take d (shape t) @ [1] @ drop d (shape t)\<rparr>))"

definition index_of :: "nat \<Rightarrow> nat list \<Rightarrow> nat" where
  "index_of j dims = length (takeWhile (\<lambda>d. d \<noteq> j) dims)"

definition permute :: "nat list \<Rightarrow> 'a tensor \<Rightarrow> error + 'a tensor" where
  "permute dims t =
     (if sort dims \<noteq> [0..<length (shape t)] then
        Inl (RuntimeError ''permute: dims do not match the tensor'')
      else Inr (tabulate (map (\<lambda>d. shape t ! d) dims)
                  (\<lambda>idx. tensor_at t (map (\<lambda>j. idx ! index_of j dims) [0..<length (shape t)]))))"

definition repeat2 :: "'a tensor \<Rightarrow> nat \<Rightarrow> nat \<Rightarrow> error + 'a tensor" where
  "repeat2 t n m =
     (case shape t of
        [] \<Rightarrow> Inr (tabulate [n, m] (\<lambda>idx. data t ! 0))
      | [w] \<Rightarrow> Inr (tabulate [n, m * w] (\<lambda>idx. data t ! (idx ! 1 mod w)))
      | [a, w] \<Rightarrow> Inr (tabulate [n * a, m * w] (\<lambda>idx. data t ! ((idx ! 0 mod a) * w + idx ! 1 mod w)))
      | _ \<Rightarrow> Inl (RuntimeError
            ''Number of dimensions of repeat dims can not be smaller than number of dimensions of tensor''))"

definition select_dim1 :: "nat \<Rightarrow> 'a tensor \<Rightarrow> error + 'a tensor" where
  "select_dim1 k t =
     (case shape t of
        s0 # s1 # s2 # rest \<Rightarrow>
          if s1 \<le> k then Inl (IndexError ''index out of range'')
          else Inr (tabulate (s0 # s2 # rest) (\<lambda>idx. tensor_at t (hd idx # k # tl idx)))
      | _ \<Rightarrow> Inl (IndexError ''too many indices for tensor''))"

text \<open>
  The arithmetic, \<^verbatim>\<open>+\<close> with its broadcasting and \<^verbatim>\<open>@\<close>, is the runtime's, and so is what a
  sub-module computes. In evaluation mode (no dropout) a sub-module is a function of its
  input, with its weights fixed: the convolution, the two normalisations and the
  transformer stack are such functions, and \<^verbatim>\<open>positional_embedding\<close> and \<^verbatim>\<open>proj\<close> are
  parameter tensors.
\<close>

record runtime =
  rt_add :: "real tensor \<Rightarrow> real tensor \<Rightarrow> error + real tensor"
  rt_matmul :: "real tensor \<Rightarrow> real tensor \<Rightarrow> error + real tensor"

record FlatTransformer_module =
  ft_width :: int
  ft_conv1 :: "real tensor \<Rightarrow> error + real tensor"
  ft_positional_embedding :: "real tensor"
  ft_ln_pre :: "real tensor \<Rightarrow> error + real tensor"
  ft_transformer :: "real tensor \<Rightarrow> error + real tensor"
  ft_ln_post :: "real tensor \<Rightarrow> error + real tensor"
  ft_proj :: "real tensor option"

definition generate_positional_encoding ::
  "FlatTransformer_module \<Rightarrow> real tensor \<Rightarrow> error + real tensor" where
  "generate_positional_encoding self x =
     and_then (select_last 1 x) (\<lambda>p_x.
     and_then (select_last 2 x) (\<lambda>p_y.
     and_then (select_last 3 x) (\<lambda>p_z.
       case shape p_x of
         [] \<Rightarrow> Inl (IndexError ''tuple index out of range'')
       | n # _ \<Rightarrow> repeat2 (ft_positional_embedding self) n 1)))"

definition FlatTransformer_forward ::
  "runtime \<Rightarrow> FlatTransformer_module \<Rightarrow> real tensor \<Rightarrow> error + real tensor" where
  "FlatTransformer_forward rt self x =
     and_then (select_last 0 x) (\<lambda>t.
     and_then (unsqueeze 1 t) (\<lambda>t1.
     and_then (ft_conv1 self t1) (\<lambda>e.
     and_then (permute [0, 2, 1] e) (\<lambda>e.
     and_then (generate_positional_encoding self x) (\<lambda>pe.
     and_then (rt_add rt e pe) (\<lambda>e.
     and_then (ft_ln_pre self e) (\<lambda>e.
     and_then (permute [1, 0, 2] e) (\<lambda>e.
     and_then (ft_transformer self e) (\<lambda>e.
     and_then (permute [1, 0, 2] e) (\<lambda>e.
     and_then (select_dim1 0 e) (\<lambda>e0.
     and_then (ft_ln_post self e0) (\<lambda>e.
       case ft_proj self of
         None \<Rightarrow> Inr e
       | Some p \<Rightarrow> rt_matmul rt e p))))))))))))"

section \<open>Properties of the sequence transformer\<close>

lemma select_last_shape:
  "select_last k x = Inr p \<Longrightarrow> shape p = butlast (shape x)"
  by (auto simp: select_last_def split: if_splits)

lemma select_last_fails_by_shape:
  "shape x = shape y \<Longrightarrow> (\<exists>e. select_last k x = Inl e) = (\<exists>e. select_last k y = Inl e)"
  by (simp add: select_last_def)

lemma select_last_error_by_shape:
  "shape x = shape y \<Longrightarrow> select_last k x = Inl e \<Longrightarrow> select_last k y = Inl e"
  by (auto simp: select_last_def split: if_splits)

lemma generate_positional_encoding_shape_only:
  assumes "shape x = shape y"
  shows "generate_positional_encoding self x = generate_positional_encoding self (y :: real tensor)"
proof -
  have s: "\<And>k. (case select_last k x of Inl e \<Rightarrow> Inl e | Inr p \<Rightarrow> Inr (shape p))
             = (case select_last k y of Inl e \<Rightarrow> Inl e | Inr p \<Rightarrow> Inr (shape p))"
    using assms by (simp add: select_last_def)
  show ?thesis
    unfolding generate_positional_encoding_def and_then_def
    using s [of 1] s [of 2] s [of 3]
    by (auto split: sum.splits)
qed

lemma generate_positional_encoding_value:
  assumes "shape x = [n, l, 4]" and "shape (ft_positional_embedding self) = [w]"
  shows "generate_positional_encoding self x
           = Inr (tabulate [n, w] (\<lambda>idx. data (ft_positional_embedding self) ! (idx ! 1 mod w)))"
  using assms by (simp add: generate_positional_encoding_def select_last_def repeat2_def)

text \<open>
  C9. Two inputs of the same shape whose components at index 0 of the last dimension are
  equal give the same result of \<^verbatim>\<open>forward\<close> (the same tensor or the same exception),
  whatever their other components are: the positional encoding is the one learned vector
  repeated once per batch element, and reads only the shape of the input.
\<close>

theorem FlatTransformer_ignores_coordinates:
  assumes "shape x = shape y"
    and "select_last 0 x = select_last 0 y"
  shows "FlatTransformer_forward rt self x = FlatTransformer_forward rt self y
       \<and> generate_positional_encoding self x = generate_positional_encoding self y"
  using assms generate_positional_encoding_shape_only [OF assms(1), of self]
  by (simp add: FlatTransformer_forward_def)

definition example_runtime :: runtime where
  "example_runtime = \<lparr>rt_add = (\<lambda>a b. Inr a), rt_matmul = (\<lambda>a b. Inr a)\<rparr>"

definition example_FlatTransformer :: FlatTransformer_module where
  "example_FlatTransformer =
     \<lparr>ft_width = 1, ft_conv1 = Inr, ft_positional_embedding = \<lparr>shape = [1], data = [1 / 2]\<rparr>,
      ft_ln_pre = Inr, ft_transformer = Inr, ft_ln_post = Inr,
      ft_proj = Some \<lparr>shape = [1, 1], data = [2]\<rparr>\<rparr>"

lemma select_last_example:
  "select_last 0 \<lparr>shape = [1, 2, 4], data = [5, a, b, c, 6, d, e, f :: real]\<rparr>
     = Inr \<lparr>shape = [1, 2], data = [5, 6]\<rparr>"
  by (simp add: select_last_def tabulate_def tensor_at_def upt_rec [of _ "numeral _"] nth_Cons')

theorem FlatTransformer_ignores_coordinates_witness:
  "select_last 0 \<lparr>shape = [1, 2, 4], data = [5, 1, 2, 3, 6, 4, 5, 6 :: real]\<rparr>
     = select_last 0 \<lparr>shape = [1, 2, 4], data = [5, 9, 8, 7, 6, 0, 0, 1 :: real]\<rparr>
   \<and> FlatTransformer_forward example_runtime example_FlatTransformer
         \<lparr>shape = [1, 2, 4], data = [5, 1, 2, 3, 6, 4, 5, 6]\<rparr>
     = FlatTransformer_forward example_runtime example_FlatTransformer
         \<lparr>shape = [1, 2, 4], data = [5, 9, 8, 7, 6, 0, 0, 1]\<rparr>"
proof -
  let ?x = "\<lparr>shape = [1, 2, 4], data = [5, 1, 2, 3, 6, 4, 5, 6 :: real]\<rparr>"
  let ?y = "\<lparr>shape = [1, 2, 4], data = [5, 9, 8, 7, 6, 0, 0, 1 :: real]\<rparr>"
  have s: "shape ?x = shape ?y" by simp
  have c: "select_last 0 ?x = select_last 0 ?y" by (simp only: select_last_example)
  from FlatTransformer_ignores_coordinates [OF s c] c show ?thesis by simp
qed

section \<open>Half-precision conversion (convert_weights_to_fp16)\<close>

text \<open>
  Parameter tensors live in a heap, so that two attributes may hold the same tensor; of a
  stored tensor the model keeps the shape and the dtype, which is what
  \<^verbatim>\<open>t.data = t.data.half()\<close> acts on (the values are rounded by the runtime).
\<close>

datatype dtype = Float16 | BFloat16 | Float32 | Float64

record stored =
  st_shape :: "nat list"
  st_dtype :: dtype

type_synonym heap = "nat \<Rightarrow> stored option"

definition half :: "stored \<Rightarrow> stored" where
  "half t = t\<lparr>st_dtype := Float16\<rparr>"

text \<open>
  A module is its classes (the names along its method resolution order, which is what
  \<^verbatim>\<open>isinstance\<close> consults), its attributes that are not modules (a tensor, \<^verbatim>\<open>None\<close>, or any
  other object), and its named child modules. \<^verbatim>\<open>getattr\<close> finds both kinds; neither a child
  module nor another object has an attribute \<^verbatim>\<open>data\<close>.
\<close>

datatype attr = TensorRef nat | NoneAttr | ObjectAttr

datatype nn_module =
  Module (classes: "string list") (attrs: "(string \<times> attr) list") (children: "(string \<times> nn_module) list")

definition isinstance :: "nn_module \<Rightarrow> string list \<Rightarrow> bool" where
  "isinstance l cs = (\<exists>c \<in> set cs. c \<in> set (classes l))"

definition getattr_of :: "nn_module \<Rightarrow> string \<Rightarrow> attr option" where
  "getattr_of l name =
     (case map_of (attrs l) name of
        Some a \<Rightarrow> Some a
      | None \<Rightarrow> (case map_of (children l) name of Some c \<Rightarrow> Some ObjectAttr | None \<Rightarrow> None))"

definition missing :: "string \<Rightarrow> error" where
  "missing name = AttributeError (''object has no attribute '' @ name)"

definition half_data :: "attr \<Rightarrow> heap \<Rightarrow> error + heap" where
  "half_data a h =
     (case a of
        TensorRef r \<Rightarrow> Inr (h(r := map_option half (h r)))
      | NoneAttr \<Rightarrow> Inl (missing ''data'')
      | ObjectAttr \<Rightarrow> Inl (missing ''data''))"

definition half_unless_none :: "attr \<Rightarrow> heap \<Rightarrow> error + heap" where
  "half_unless_none a h = (if a = NoneAttr then Inr h else half_data a h)"

text \<open>
  The three parts of the inner function \<^verbatim>\<open>_convert_weights_to_fp16\<close>: \<^verbatim>\<open>l.weight\<close> is
  converted without a test for \<^verbatim>\<open>None\<close>; \<^verbatim>\<open>l.bias\<close> and the attention attributes are read
  with \<^verbatim>\<open>getattr\<close> and converted unless \<^verbatim>\<open>None\<close>; \<^verbatim>\<open>text_projection\<close> and \<^verbatim>\<open>proj\<close> are
  converted when \<^verbatim>\<open>hasattr\<close> finds them and they are not \<^verbatim>\<open>None\<close>.
\<close>

definition convert_weight :: "nn_module \<Rightarrow> heap \<Rightarrow> error + heap" where
  "convert_weight l h =
     (case getattr_of l ''weight'' of
        None \<Rightarrow> Inl (missing ''weight'')
      | Some w \<Rightarrow> half_data w h)"

definition convert_required :: "nn_module \<Rightarrow> string \<Rightarrow> heap \<Rightarrow> error + heap" where
  "convert_required l name h =
     (case getattr_of l name of
        None \<Rightarrow> Inl (missing name)
      | Some a \<Rightarrow> half_unless_none a h)"

definition convert_if_present :: "nn_module \<Rightarrow> string \<Rightarrow> heap \<Rightarrow> error + heap" where
  "convert_if_present l name h =
     (case getattr_of l name of
        None \<Rightarrow> Inr h
      | Some a \<Rightarrow> half_unless_none a h)"

fun for_each :: "(string \<Rightarrow> heap \<Rightarrow> error + heap) \<Rightarrow> string list \<Rightarrow> heap \<Rightarrow> error + heap" where
  "for_each body [] h = Inr h"
| "for_each body (n # ns) h = and_then (body n h) (for_each body ns)"

definition mha_attrs :: "string list" where
  "mha_attrs = map (\<lambda>s. s @ ''_proj_weight'') [''in'', ''q'', ''k'', ''v'']
                 @ [''in_proj_bias'', ''bias_k'', ''bias_v'']"

definition convert_one :: "nn_module \<Rightarrow> heap \<Rightarrow> error + heap" where
  "convert_one l h =
     and_then
       (if isinstance l [''Conv1d'', ''Conv2d'', ''Linear''] then
          and_then (convert_weight l h) (convert_required l ''bias'')
        else Inr h) (\<lambda>h.
     and_then
       (if isinstance l [''MultiheadAttention''] then for_each (convert_required l) mha_attrs h
        else Inr h) (\<lambda>h.
     for_each (convert_if_present l) [''text_projection'', ''proj''] h))"

text \<open>\<^verbatim>\<open>model.apply(fn)\<close>: the children first, in order, then the module itself.\<close>

fun apply_fp16 :: "nn_module \<Rightarrow> heap \<Rightarrow> error + heap"
  and apply_children :: "(string \<times> nn_module) list \<Rightarrow> heap \<Rightarrow> error + heap" where
  "apply_fp16 (Module cs as ch) h =
     and_then (apply_children ch h) (convert_one (Module cs as ch))"
| "apply_children [] h = Inr h"
| "apply_children (c # rest) h = and_then (apply_fp16 (snd c) h) (apply_children rest)"

definition convert_weights_to_fp16 :: "nn_module \<Rightarrow> heap \<Rightarrow> error + heap" where
  "convert_weights_to_fp16 model h = apply_fp16 model h"

text \<open>
  The tensors the conversion is meant for: in each module of the tree, \<^verbatim>\<open>weight\<close> and
  \<^verbatim>\<open>bias\<close> of an instance of Conv1d, Conv2d or Linear, the seven attention attributes of a
  MultiheadAttention, and the attributes named \<^verbatim>\<open>text_projection\<close> and \<^verbatim>\<open>proj\<close>.
\<close>

definition refs :: "nn_module \<Rightarrow> string list \<Rightarrow> nat set" where
  "refs l names = {r. \<exists>n \<in> set names. getattr_of l n = Some (TensorRef r)}"

definition own_targets :: "nn_module \<Rightarrow> nat set" where
  "own_targets l =
     (if isinstance l [''Conv1d'', ''Conv2d'', ''Linear''] then refs l [''weight'', ''bias''] else {})
     \<union> (if isinstance l [''MultiheadAttention''] then refs l mha_attrs else {})
     \<union> refs l [''text_projection'', ''proj'']"

fun targets :: "nn_module \<Rightarrow> nat set"
  and targets_children :: "(string \<times> nn_module) list \<Rightarrow> nat set" where
  "targets (Module cs as ch) = targets_children ch \<union> own_targets (Module cs as ch)"
| "targets_children [] = {}"
| "targets_children (c # rest) = targets (snd c) \<union> targets_children rest"

definition cast_set :: "nat set \<Rightarrow> heap \<Rightarrow> heap" where
  "cast_set S h = (\<lambda>r. if r \<in> S then map_option half (h r) else h r)"

definition conv3d_layer :: nn_module where
  "conv3d_layer = Module [''Conv3d'', ''_ConvNd'', ''Module'']
                    [(''weight'', TensorRef 0), (''bias'', TensorRef 1)] []"

definition conv3d_heap :: heap where
  "conv3d_heap = (\<lambda>r. None)(0 := Some \<lparr>st_shape = [64, 1, 3, 3, 3], st_dtype = Float32\<rparr>,
                               1 := Some \<lparr>st_shape = [64], st_dtype = Float32\<rparr>)"

definition residual_mlp :: nn_module where
  "residual_mlp = Module [''Sequential'', ''Module''] []
     [(''c_fc'', Module [''Linear'', ''Module''] [(''weight'', TensorRef 0), (''bias'', TensorRef 1)] []),
      (''c_act'', Module [''GELU'', ''Module''] [] []),
      (''proj'', Module [''Linear'', ''Module''] [(''weight'', TensorRef 2), (''bias'', TensorRef 3)] [])]"

definition small_model :: nn_module where
  "small_model = Module [''Net'', ''Module''] [(''proj'', TensorRef 4), (''scale'', TensorRef 5)]
     [(''fc'', Module [''Linear'', ''Module''] [(''weight'', TensorRef 0), (''bias'', TensorRef 1)] []),
      (''ln'', Module [''LayerNorm'', ''Module''] [(''weight'', TensorRef 2), (''bias'', TensorRef 3)] []),
      (''conv'', Module [''Conv3d'', ''_ConvNd'', ''Module''] [(''weight'', TensorRef 6), (''bias'', NoneAttr)] [])]"

definition small_heap :: heap where
  "small_heap = (\<lambda>r. if r < 7 then Some \<lparr>st_shape = [8, 8], st_dtype = Float32\<rparr> else None)"

section \<open>Properties of the half-precision conversion\<close>

lemma half_half [simp]: "half (half t) = half t"
  by (simp add: half_def)

lemma cast_set_empty [simp]: "cast_set {} h = h"
  by (simp add: cast_set_def)

lemma cast_set_cast_set: "cast_set S (cast_set T h) = cast_set (T \<union> S) h"
  by (auto simp: cast_set_def fun_eq_iff option.map_comp o_def)

lemma refs_Nil [simp]: "refs l [] = {}"
  by (simp add: refs_def)

lemma refs_Cons: "refs l (n # ns) = refs l [n] \<union> refs l ns"
  by (auto simp: refs_def)

lemma cast_set_single: "h(r := map_option half (h r)) = cast_set {r} h"
  by (auto simp: cast_set_def fun_eq_iff)

lemma refs_single:
  "refs l [n] = (case getattr_of l n of Some (TensorRef r) \<Rightarrow> {r} | _ \<Rightarrow> {})"
  by (auto simp: refs_def split: option.splits attr.splits)

lemma half_unless_none_cast:
  "half_unless_none a h = Inr h' \<Longrightarrow> getattr_of l n = Some a \<Longrightarrow> h' = cast_set (refs l [n]) h"
  by (cases a) (auto simp: half_unless_none_def half_data_def cast_set_single refs_single)

lemma convert_required_cast:
  "convert_required l n h = Inr h' \<Longrightarrow> h' = cast_set (refs l [n]) h"
  by (auto simp: convert_required_def split: option.splits dest: half_unless_none_cast)

lemma convert_if_present_cast:
  "convert_if_present l n h = Inr h' \<Longrightarrow> h' = cast_set (refs l [n]) h"
  by (auto simp: convert_if_present_def refs_single split: option.splits dest: half_unless_none_cast)

lemma convert_weight_cast:
  "convert_weight l h = Inr h' \<Longrightarrow> h' = cast_set (refs l [''weight'']) h"
  by (auto simp: convert_weight_def half_data_def cast_set_single refs_single
      split: option.splits attr.splits)

lemma for_each_cast:
  assumes "\<And>n h h'. body n h = Inr h' \<Longrightarrow> h' = cast_set (refs l [n]) h"
  shows "for_each body ns h = Inr h' \<Longrightarrow> h' = cast_set (refs l ns) h"
proof (induction ns arbitrary: h)
  case Nil
  then show ?case by simp
next
  case (Cons n ns)
  from Cons.prems obtain h1 where b: "body n h = Inr h1" and r: "for_each body ns h1 = Inr h'"
    by (auto simp: and_then_def split: sum.splits)
  have "h' = cast_set (refs l ns) (cast_set (refs l [n]) h)"
    using Cons.IH [OF r] assms [OF b] by simp
  then show ?case by (simp add: cast_set_cast_set refs_Cons [of l n ns])
qed

lemma convert_one_cast:
  assumes "convert_one l h = Inr h'"
  shows "h' = cast_set (own_targets l) h"
proof -
  from assms obtain h1 h2 where
    s1: "(if isinstance l [''Conv1d'', ''Conv2d'', ''Linear''] then
          and_then (convert_weight l h) (convert_required l ''bias'') else Inr h) = Inr h1"
    and s2: "(if isinstance l [''MultiheadAttention''] then for_each (convert_required l) mha_attrs h1
        else Inr h1) = Inr h2"
    and s3: "for_each (convert_if_present l) [''text_projection'', ''proj''] h2 = Inr h'"
    by (auto simp: convert_one_def and_then_def split: sum.splits)
  have e1: "h1 = cast_set (if isinstance l [''Conv1d'', ''Conv2d'', ''Linear''] then refs l [''weight'', ''bias''] else {}) h"
  proof (cases "isinstance l [''Conv1d'', ''Conv2d'', ''Linear'']")
    case True
    with s1 obtain hw where w: "convert_weight l h = Inr hw" and b: "convert_required l ''bias'' hw = Inr h1"
      by (auto simp: and_then_def split: sum.splits)
    from convert_weight_cast [OF w] convert_required_cast [OF b] True
    show ?thesis by (simp add: cast_set_cast_set refs_Cons [of l "''weight''" "[''bias'']"])
  next
    case False
    with s1 show ?thesis by simp
  qed
  have e2: "h2 = cast_set (if isinstance l [''MultiheadAttention''] then refs l mha_attrs else {}) h1"
  proof (cases "isinstance l [''MultiheadAttention'']")
    case True
    with s2 have "for_each (convert_required l) mha_attrs h1 = Inr h2" by simp
    from for_each_cast [OF convert_required_cast this] True show ?thesis by simp
  next
    case False
    with s2 show ?thesis by simp
  qed
  have e3: "h' = cast_set (refs l [''text_projection'', ''proj'']) h2"
    using for_each_cast [OF convert_if_present_cast s3] .
  show ?thesis unfolding e3 e2 e1 own_targets_def by (simp add: cast_set_cast_set)
qed

lemma apply_fp16_cast:
  "apply_fp16 m h = Inr h' \<Longrightarrow> h' = cast_set (targets m) h"
  "apply_children ch h = Inr h' \<Longrightarrow> h' = cast_set (targets_children ch) h"
proof (induction m h and ch h arbitrary: h' and h' rule: apply_fp16_apply_children.induct)
  case (1 cs as ch h)
  from "1.prems" obtain h1 where c: "apply_children ch h = Inr h1"
    and o: "convert_one (Module cs as ch) h1 = Inr h'"
    by (auto simp: and_then_def split: sum.splits)
  from "1.IH" [OF c] convert_one_cast [OF o] show ?case
    by (simp add: cast_set_cast_set)
next
  case (2 h)
  then show ?case by simp
next
  case (3 c rest h)
  from "3.prems" obtain h1 where a: "apply_fp16 (snd c) h = Inr h1"
    and r: "apply_children rest h1 = Inr h'"
    by (auto simp: and_then_def split: sum.splits)
  from "3.IH"(1) [OF a] "3.IH"(2) [OF r] show ?case
    by (simp add: cast_set_cast_set)
qed

text \<open>
  C5, as stated, fails: a three-dimensional convolution is a convolution layer, and its
  weight and bias keep their precision (the type test names Conv1d, Conv2d and Linear
  only).
\<close>

theorem convert_weights_to_fp16_skips_Conv3d:
  "convert_weights_to_fp16 conv3d_layer conv3d_heap = Inr conv3d_heap
   \<and> map_option st_dtype (conv3d_heap 0) = Some Float32"
  by (simp add: convert_weights_to_fp16_def conv3d_layer_def conv3d_heap_def convert_one_def
      isinstance_def convert_if_present_def getattr_of_def)

text \<open>
  The conversion does not always complete: the MLP of a ResidualAttentionBlock of this
  file has a child module named \<^verbatim>\<open>proj\<close>, which \<^verbatim>\<open>hasattr\<close> finds and which has no
  \<^verbatim>\<open>data\<close>.
\<close>

lemma convert_weights_to_fp16_residual_mlp_raises:
  "convert_weights_to_fp16 residual_mlp h = Inl (AttributeError ''object has no attribute data'')"
  by (simp add: convert_weights_to_fp16_def residual_mlp_def convert_one_def isinstance_def
      convert_if_present_def convert_required_def convert_weight_def getattr_of_def
      half_unless_none_def half_data_def missing_def)

text \<open>
  C5, amended. When the conversion completes, the heap afterwards is the heap before with
  exactly the tensors of \<open>targets\<close> cast to half precision: the weight and bias of the
  Conv1d, Conv2d and Linear layers, the attention attributes of the MultiheadAttention
  layers, and the tensors named \<^verbatim>\<open>text_projection\<close> or \<^verbatim>\<open>proj\<close>. Every other tensor is as it
  was; no tensor is added or removed, and no shape changes.
\<close>

theorem convert_weights_to_fp16_frame:
  assumes "convert_weights_to_fp16 model h = Inr h'"
  shows "h' = cast_set (targets model) h
       \<and> dom h' = dom h
       \<and> (\<forall>r t. h r = Some t \<longrightarrow>
            h' r = Some (if r \<in> targets model then t\<lparr>st_dtype := Float16\<rparr> else t))"
proof -
  have e: "h' = cast_set (targets model) h"
    using assms unfolding convert_weights_to_fp16_def by (rule apply_fp16_cast(1))
  have d: "dom (cast_set (targets model) h) = dom h"
    by (auto simp: cast_set_def dom_def)
  have v: "\<forall>r t. h r = Some t \<longrightarrow>
            cast_set (targets model) h r = Some (if r \<in> targets model then t\<lparr>st_dtype := Float16\<rparr> else t)"
    by (simp add: cast_set_def half_def)
  from e d v show ?thesis by simp
qed

lemma small_model_converts: "\<exists>h'. convert_weights_to_fp16 small_model small_heap = Inr h'"
  by (simp add: convert_weights_to_fp16_def small_model_def convert_one_def isinstance_def
      convert_if_present_def convert_required_def convert_weight_def getattr_of_def
      half_unless_none_def half_data_def)

lemma small_model_targets: "targets small_model = {0, 1, 4}"
  by (auto simp: small_model_def own_targets_def isinstance_def refs_def getattr_of_def mha_attrs_def)

theorem convert_weights_to_fp16_frame_witness:
  "\<exists>h'. convert_weights_to_fp16 small_model small_heap = Inr h'
     \<and> h' 0 = Some \<lparr>st_shape = [8, 8], st_dtype = Float16\<rparr>
     \<and> h' 4 = Some \<lparr>st_shape = [8, 8], st_dtype = Float16\<rparr>
     \<and> h' 2 = Some \<lparr>st_shape = [8, 8], st_dtype = Float32\<rparr>
     \<and> h' 5 = Some \<lparr>st_shape = [8, 8], st_dtype = Float32\<rparr>
     \<and> h' 6 = Some \<lparr>st_shape = [8, 8], st_dtype = Float32\<rparr>
     \<and> h' 7 = None"
proof -
  from small_model_converts obtain h' where c: "convert_weights_to_fp16 small_model small_heap = Inr h'"
    by blast
  from convert_weights_to_fp16_frame [OF c]
  have e: "h' = cast_set (targets small_model) small_heap" by simp
  show ?thesis
    by (rule exI [of _ h']) (simp add: c, simp add: e small_model_targets cast_set_def small_heap_def half_def)
qed

section \<open>Resizing the positional embedding (resize_pos_embed)\<close>

text \<open>
  The tensor operations the routine uses: \<^verbatim>\<open>t.shape[0]\<close>, \<^verbatim>\<open>len(t)\<close>, the row slices
  \<^verbatim>\<open>t[:n]\<close> and \<^verbatim>\<open>t[n:]\<close>, \<^verbatim>\<open>int(math.sqrt(n))\<close>, \<^verbatim>\<open>reshape\<close> with at most one inferred
  dimension \<open>-1\<close>, \<^verbatim>\<open>t[0]\<close> and \<^verbatim>\<open>torch.cat\<close> along dimension 0 (which skips a tensor of
  shape \<open>[0]\<close>). \<^verbatim>\<open>int(math.sqrt(n))\<close> is the integer square root rounded down, which the
  floating-point square root gives for every sequence length below \<open>2^52\<close>.
\<close>

definition size0 :: "'a tensor \<Rightarrow> error + nat" where
  "size0 t = (case shape t of [] \<Rightarrow> Inl (IndexError ''tuple index out of range'') | n # _ \<Rightarrow> Inr n)"

definition len :: "'a tensor \<Rightarrow> error + nat" where
  "len t = (case shape t of [] \<Rightarrow> Inl (TypeError ''len() of a 0-d tensor'') | n # _ \<Rightarrow> Inr n)"

definition rows_upto :: "nat \<Rightarrow> 'a tensor \<Rightarrow> error + 'a tensor" where
  "rows_upto n t =
     (case shape t of
        [] \<Rightarrow> Inl (IndexError ''slice() cannot be applied to a 0-dim tensor'')
      | s0 # rest \<Rightarrow>
          Inr \<lparr>shape = min n s0 # rest, data = take (min n s0 * prod_list rest) (data t)\<rparr>)"

definition rows_from :: "nat \<Rightarrow> 'a tensor \<Rightarrow> error + 'a tensor" where
  "rows_from n t =
     (case shape t of
        [] \<Rightarrow> Inl (IndexError ''slice() cannot be applied to a 0-dim tensor'')
      | s0 # rest \<Rightarrow>
          Inr \<lparr>shape = (s0 - min n s0) # rest, data = drop (min n s0 * prod_list rest) (data t)\<rparr>)"

fun sqrt_down :: "nat \<Rightarrow> nat \<Rightarrow> nat" where
  "sqrt_down 0 n = 0"
| "sqrt_down (Suc k) n = (if Suc k * Suc k \<le> n then Suc k else sqrt_down k n)"

definition floor_sqrt :: "nat \<Rightarrow> nat" where
  "floor_sqrt n = sqrt_down n n"

definition reshape :: "int list \<Rightarrow> 'a tensor \<Rightarrow> error + 'a tensor" where
  "reshape dims t =
     (let numel = prod_list (shape t);
          known = prod_list (map nat (filter (\<lambda>d. d \<noteq> - 1) dims));
          inferred = length (filter (\<lambda>d. d = - 1) dims)
      in if list_ex (\<lambda>d. d < - 1) dims then Inl (RuntimeError ''invalid shape dimension'')
         else if 1 < inferred then Inl (RuntimeError ''only one dimension can be inferred'')
         else if inferred = 1 then
           (if known = 0 then
              Inl (RuntimeError ''cannot reshape: the unspecified dimension size -1 is ambiguous'')
            else if numel mod known \<noteq> 0 then
              Inl (RuntimeError ''shape is invalid for input size'')
            else Inr (t\<lparr>shape := map (\<lambda>d. if d = - 1 then numel div known else nat d) dims\<rparr>))
         else if known \<noteq> numel then Inl (RuntimeError ''shape is invalid for input size'')
         else Inr (t\<lparr>shape := map nat dims\<rparr>))"

definition index0 :: "'a tensor \<Rightarrow> error + 'a tensor" where
  "index0 t =
     (case shape t of
        [] \<Rightarrow> Inl (IndexError ''invalid index of a 0-dim tensor'')
      | s0 # rest \<Rightarrow>
          if s0 = 0 then Inl (IndexError ''index 0 is out of bounds for dimension 0 with size 0'')
          else Inr \<lparr>shape = rest, data = take (prod_list rest) (data t)\<rparr>)"

definition cat0 :: "'a tensor \<Rightarrow> 'a tensor \<Rightarrow> error + 'a tensor" where
  "cat0 a b =
     (if shape a = [0] then Inr b
      else if shape b = [0] then Inr a
      else (case (shape a, shape b) of
              (a0 # ra, b0 # rb) \<Rightarrow>
                if ra = rb then Inr \<lparr>shape = (a0 + b0) # ra, data = data a @ data b\<rparr>
                else Inl (RuntimeError ''Sizes of tensors must match except in dimension 0'')
            | _ \<Rightarrow> Inl (RuntimeError ''zero-dimensional tensor cannot be concatenated'')))"

text \<open>
  Modelled from the spec: \<^verbatim>\<open>to_2tuple\<close> is defined in \<^verbatim>\<open>utils.py\<close>, which is not among
  the sources. The square grid of the specification and the two uses here fix it: a
  number \<open>n\<close> becomes the pair \<open>(n, n)\<close>, a pair is returned as it is.
\<close>

datatype grid_size = GridInt nat | GridPair nat nat

fun to_2tuple :: "grid_size \<Rightarrow> nat \<times> nat" where
  "to_2tuple (GridInt n) = (n, n)"
| "to_2tuple (GridPair a b) = (a, b)"

text \<open>
  The checkpoint is a dictionary from parameter names to tensors; the dictionary after
  the call is the result. \<open>visual_grid_size\<close> is \<^verbatim>\<open>model.visual.grid_size\<close>, \<open>None\<close> when the
  vision tower has no such attribute. \<^verbatim>\<open>F.interpolate\<close> (bicubic, align_corners) is the
  runtime's and is a parameter.
\<close>

type_synonym state_dict = "string \<Rightarrow> real tensor option"

definition resize_pos_embed ::
  "(real tensor \<Rightarrow> nat \<times> nat \<Rightarrow> string \<Rightarrow> error + real tensor)
     \<Rightarrow> state_dict \<Rightarrow> grid_size option \<Rightarrow> string \<Rightarrow> error + state_dict" where
  "resize_pos_embed F_interpolate state visual_grid_size interpolation =
     (case state ''visual.positional_embedding'' of
        None \<Rightarrow> Inr state
      | Some old_pos_embed \<Rightarrow>
        (case visual_grid_size of
           None \<Rightarrow> Inr state
         | Some g \<Rightarrow>
           let grid = to_2tuple g;
               extra_tokens = 1;
               new_seq_len = fst grid * snd grid + extra_tokens
           in
           and_then (size0 old_pos_embed) (\<lambda>old_len.
           if new_seq_len = old_len then Inr state
           else
             and_then
               (if extra_tokens \<noteq> 0 then
                  and_then (rows_upto extra_tokens old_pos_embed) (\<lambda>tok.
                  and_then (rows_from extra_tokens old_pos_embed) (\<lambda>img.
                    Inr (Some tok, img)))
                else Inr (None, old_pos_embed)) (\<lambda>split.
             let pos_emb_tok = fst split; pos_emb_img = snd split in
             and_then (len pos_emb_img) (\<lambda>n.
             let old_grid = to_2tuple (GridInt (floor_sqrt n)) in
             and_then (reshape [1, int (fst old_grid), int (snd old_grid), - 1] pos_emb_img) (\<lambda>t.
             and_then (permute [0, 3, 1, 2] t) (\<lambda>t.
             and_then (F_interpolate t grid interpolation) (\<lambda>t.
             and_then (permute [0, 2, 3, 1] t) (\<lambda>t.
             and_then (reshape [1, int (fst grid * snd grid), - 1] t) (\<lambda>t.
             and_then (index0 t) (\<lambda>pos_emb_img.
             and_then
               (case pos_emb_tok of
                  Some tok \<Rightarrow> cat0 tok pos_emb_img
                | None \<Rightarrow> Inr pos_emb_img) (\<lambda>new_pos_embed.
             Inr (state(''visual.positional_embedding'' \<mapsto> new_pos_embed))))))))))))))"

text \<open>
  A stand-in for the runtime's interpolation that has its shape behaviour (an input
  \<open>[n, c, h, w]\<close> gives \<open>[n, c, g0, g1]\<close>) and picks the nearest source element, and two
  small checkpoints.
\<close>

definition nearest_interpolate :: "real tensor \<Rightarrow> nat \<times> nat \<Rightarrow> string \<Rightarrow> error + real tensor" where
  "nearest_interpolate t out_size mode =
     (case shape t of
        [n, c, h, w] \<Rightarrow>
          if h = 0 \<or> w = 0 \<or> fst out_size = 0 \<or> snd out_size = 0 then
            Inl (RuntimeError ''Input and output sizes should be greater than 0'')
          else Inr (tabulate [n, c, fst out_size, snd out_size]
                 (\<lambda>idx. tensor_at t [idx ! 0, idx ! 1, idx ! 2 * h div fst out_size, idx ! 3 * w div snd out_size]))
      | _ \<Rightarrow> Inl (RuntimeError ''interpolate expects a 4-D input''))"

definition checkpoint_3_rows :: state_dict where
  "checkpoint_3_rows =
     (\<lambda>k. None)(''visual.positional_embedding'' \<mapsto> \<lparr>shape = [3, 2], data = [1, 2, 3, 4, 5, 6]\<rparr>)"

definition checkpoint_2_rows :: state_dict where
  "checkpoint_2_rows =
     (\<lambda>k. None)(''visual.positional_embedding'' \<mapsto> \<lparr>shape = [2, 2], data = [1, 2, 3, 4]\<rparr>)"

section \<open>Properties of the resizing\<close>

lemma sqrt_down_square: "k \<le> m \<Longrightarrow> sqrt_down m (k * k) = k"
proof (induction m)
  case 0
  then show ?case by simp
next
  case (Suc m)
  show ?case
  proof (cases "Suc m * Suc m \<le> k * k")
    case True
    have "Suc m \<le> k"
    proof (rule ccontr)
      assume "\<not> Suc m \<le> k"
      then have "k < Suc m" by simp
      then have "k * k < Suc m * Suc m" by (intro mult_strict_mono) simp_all
      with True show False by simp
    qed
    with Suc.prems True show ?thesis by simp
  next
    case False
    then have "k \<noteq> Suc m" by auto
    with Suc.prems have "k \<le> m" by simp
    with Suc.IH False show ?thesis by simp
  qed
qed

lemma floor_sqrt_square [simp]: "floor_sqrt (k * k) = k"
proof -
  have "k \<le> k * k" by (cases k) simp_all
  then show ?thesis unfolding floor_sqrt_def by (rule sqrt_down_square)
qed

lemma permute_4:
  "length (shape t) = 4 \<Longrightarrow> sort dims = [0, 1, 2, 3] \<Longrightarrow>
   permute dims t = Inr (tabulate (map (\<lambda>d. shape t ! d) dims)
                  (\<lambda>idx. tensor_at t (map (\<lambda>j. idx ! index_of j dims) [0..<4])))"
  by (simp add: permute_def upt_rec [of _ "numeral _"])

lemma length_data_tabulate [simp]: "length (data (tabulate s f)) = prod_list s"
  by (simp add: tabulate_def)


lemma resize_pos_embed_same_length:
  assumes "state ''visual.positional_embedding'' = Some old"
    and "shape old = n0 # rest"
    and "visual_grid_size = Some g"
    and "to_2tuple g = (g0, g1)"
    and "g0 * g1 + 1 = n0"
  shows "resize_pos_embed F_interpolate state visual_grid_size interpolation = Inr state"
  using assms by (simp add: resize_pos_embed_def size0_def)

lemma resize_steps:
  assumes sh: "shape old = [og * og + 1, w]"
    and wf: "wf_tensor old"
    and og: "0 < og"
    and g: "0 < g0" "0 < g1"
    and out: "shape out = [1, w, g0, g1]"
  shows "rows_upto 1 old = Inr \<lparr>shape = [1, w], data = take w (data old)\<rparr>"
    and "rows_from 1 old = Inr \<lparr>shape = [og * og, w], data = drop w (data old)\<rparr>"
    and "reshape [1, int og, int og, - 1] \<lparr>shape = [og * og, w], data = drop w (data old)\<rparr>
          = Inr \<lparr>shape = [1, og, og, w], data = drop w (data old)\<rparr>"
    and "\<exists>t. permute [0, 3, 1, 2] \<lparr>shape = [1, og, og, w], data = drop w (data old)\<rparr> = Inr t
            \<and> shape t = [1, w, og, og]"
    and "\<exists>p. permute [0, 2, 3, 1] out = Inr p \<and> shape p = [1, g0, g1, w]
            \<and> length (data p) = g0 * g1 * w"
proof -
  show "rows_upto 1 old = Inr \<lparr>shape = [1, w], data = take w (data old)\<rparr>"
    using sh by (simp add: rows_upto_def)
  show "rows_from 1 old = Inr \<lparr>shape = [og * og, w], data = drop w (data old)\<rparr>"
    using sh by (simp add: rows_from_def)
  have pos: "0 < og * og" using og by simp
  show "reshape [1, int og, int og, - 1] \<lparr>shape = [og * og, w], data = drop w (data old)\<rparr>
          = Inr \<lparr>shape = [1, og, og, w], data = drop w (data old)\<rparr>"
    using pos by (simp add: reshape_def Let_def)
  show "\<exists>t. permute [0, 3, 1, 2] \<lparr>shape = [1, og, og, w], data = drop w (data old)\<rparr> = Inr t
            \<and> shape t = [1, w, og, og]"
    by (simp add: permute_4)
  show "\<exists>p. permute [0, 2, 3, 1] out = Inr p \<and> shape p = [1, g0, g1, w]
            \<and> length (data p) = g0 * g1 * w"
    using out by (simp add: permute_4)
qed


lemma reshape_infer_last:
  "0 < k \<Longrightarrow> prod_list (shape t) = k * w \<Longrightarrow>
   reshape [1, int k, - 1] t = Inr (t\<lparr>shape := [1, k, w]\<rparr>)"
  by (simp add: reshape_def Let_def)

lemma floor_sqrt_2: "floor_sqrt 2 = 1"
  by (simp add: floor_sqrt_def eval_nat_numeral)

text \<open>
  C7, as stated, fails: a stored embedding of three rows (a class token and a 1 by 2
  grid, as a vision transformer with a non-square image has) and a target grid of 2 by 2
  differ in length, and the routine produces no new embedding. It reshapes the two image
  rows into a 1 by 1 grid of doubled width, and the final concatenation with the class
  token raises. Only the shapes matter for this, not what the interpolation computes.
\<close>

theorem resize_pos_embed_non_square_raises:
  "resize_pos_embed nearest_interpolate checkpoint_3_rows (Some (GridPair 2 2)) ''bicubic''
     = Inl (RuntimeError ''Sizes of tensors must match except in dimension 0'')"
  by (simp add: resize_pos_embed_def checkpoint_3_rows_def size0_def len_def rows_upto_def
      rows_from_def floor_sqrt_2 reshape_def permute_4 nearest_interpolate_def index0_def
      cat0_def Let_def)

text \<open>
  C7, amended. Let the checkpoint hold a positional embedding and the vision tower have
  the grid \<open>(g0, g1)\<close>. If the stored length is \<open>g0 * g1 + 1\<close>, the routine returns the
  checkpoint unchanged. Otherwise, when the stored embedding is a class token followed by
  a square grid of \<open>og * og\<close> rows (\<open>og > 0\<close>), the target grid is positive and the
  interpolation returns a grid of the requested size, the routine stores under the same
  key an embedding of \<open>g0 * g1 + 1\<close> rows: its first row is the stored class-token row,
  element for element, and the rest is the interpolated grid.
\<close>

theorem resize_pos_embed_spec:
  assumes st: "state ''visual.positional_embedding'' = Some old"
    and gs: "visual_grid_size = Some g" "to_2tuple g = (g0, g1)"
  shows "(\<forall>rest. shape old = (g0 * g1 + 1) # rest \<longrightarrow>
            resize_pos_embed F_interpolate state visual_grid_size interpolation = Inr state)
       \<and> (\<forall>og w. shape old = [og * og + 1, w] \<and> wf_tensor old \<and> 0 < og \<and> 0 < g0 \<and> 0 < g1
             \<and> g0 * g1 \<noteq> og * og
             \<and> (\<forall>t. shape t = [1, w, og, og] \<longrightarrow>
                  (\<exists>out. F_interpolate t (g0, g1) interpolation = Inr out \<and> shape out = [1, w, g0, g1]))
            \<longrightarrow> (\<exists>new t_in out p.
                  resize_pos_embed F_interpolate state visual_grid_size interpolation
                    = Inr (state(''visual.positional_embedding'' \<mapsto> new))
                \<and> shape new = [g0 * g1 + 1, w] \<and> wf_tensor new
                \<and> take w (data new) = take w (data old)
                \<and> permute [0, 3, 1, 2] \<lparr>shape = [1, og, og, w], data = drop w (data old)\<rparr> = Inr t_in
                \<and> F_interpolate t_in (g0, g1) interpolation = Inr out
                \<and> permute [0, 2, 3, 1] out = Inr p \<and> shape p = [1, g0, g1, w]
                \<and> drop w (data new) = data p))"
proof (intro conjI allI impI)
  fix rest assume "shape old = (g0 * g1 + 1) # rest"
  with st gs show "resize_pos_embed F_interpolate state visual_grid_size interpolation = Inr state"
    by (simp add: resize_pos_embed_same_length)
next
  fix og w
  assume a: "shape old = [og * og + 1, w] \<and> wf_tensor old \<and> 0 < og \<and> 0 < g0 \<and> 0 < g1
             \<and> g0 * g1 \<noteq> og * og
             \<and> (\<forall>t. shape t = [1, w, og, og] \<longrightarrow>
                  (\<exists>out. F_interpolate t (g0, g1) interpolation = Inr out \<and> shape out = [1, w, g0, g1]))"
  then have sh: "shape old = [og * og + 1, w]" and wf: "wf_tensor old" and og: "0 < og"
    and g: "0 < g0" "0 < g1" and ne: "g0 * g1 \<noteq> og * og"
    and contract: "\<And>t. shape t = [1, w, og, og] \<Longrightarrow>
        \<exists>out. F_interpolate t (g0, g1) interpolation = Inr out \<and> shape out = [1, w, g0, g1]"
    by blast+
  have dummy: "shape \<lparr>shape = [1, w, g0, g1], data = []::real list\<rparr> = [1, w, g0, g1]" by simp
  note steps = resize_steps [OF sh wf og g]
  from steps(4) [OF dummy] obtain t_in where
    tin: "permute [0, 3, 1, 2] \<lparr>shape = [1, og, og, w], data = drop w (data old)\<rparr> = Inr t_in"
    and tin_shape: "shape t_in = [1, w, og, og]" by blast
  from contract [OF tin_shape] obtain out where
    out: "F_interpolate t_in (g0, g1) interpolation = Inr out" and out_shape: "shape out = [1, w, g0, g1]"
    by blast
  from steps(5) [OF out_shape] obtain p where
    p: "permute [0, 2, 3, 1] out = Inr p" and p_shape: "shape p = [1, g0, g1, w]"
    and p_len: "length (data p) = g0 * g1 * w" by blast
  let ?new = "\<lparr>shape = [g0 * g1 + 1, w], data = take w (data old) @ data p\<rparr>"
  have gpos: "0 < g0 * g1" using g by simp
  have r2: "reshape [1, int (g0 * g1), - 1] p = Inr (p\<lparr>shape := [1, g0 * g1, w]\<rparr>)"
    using gpos p_shape by (intro reshape_infer_last) simp_all
  have i0: "index0 (p\<lparr>shape := [1, g0 * g1, w]\<rparr>) = Inr \<lparr>shape = [g0 * g1, w], data = data p\<rparr>"
    using p_len by (simp add: index0_def)
  have c: "cat0 \<lparr>shape = [1, w], data = take w (data old)\<rparr> \<lparr>shape = [g0 * g1, w], data = data p\<rparr>
             = Inr ?new"
    using gpos by (simp add: cat0_def)
  have old_len: "length (data old) = (og * og + 1) * w"
    using wf sh by (simp add: wf_tensor_def)
  then have w_le: "w \<le> length (data old)" by simp
  have run: "resize_pos_embed F_interpolate state visual_grid_size interpolation
               = Inr (state(''visual.positional_embedding'' \<mapsto> ?new))"
    using st gs sh ne steps(1) [OF dummy] steps(2) [OF dummy] steps(3) [OF dummy] tin out p r2 i0 c
    by (simp add: resize_pos_embed_def size0_def len_def Let_def)
  have wfn: "wf_tensor ?new" using w_le p_len by (simp add: wf_tensor_def)
  have tk: "take w (data ?new) = take w (data old)" using w_le by simp
  have dr: "drop w (data ?new) = data p" using w_le by simp
  show "\<exists>new t_in out p.
                  resize_pos_embed F_interpolate state visual_grid_size interpolation
                    = Inr (state(''visual.positional_embedding'' \<mapsto> new))
                \<and> shape new = [g0 * g1 + 1, w] \<and> wf_tensor new
                \<and> take w (data new) = take w (data old)
                \<and> permute [0, 3, 1, 2] \<lparr>shape = [1, og, og, w], data = drop w (data old)\<rparr> = Inr t_in
                \<and> F_interpolate t_in (g0, g1) interpolation = Inr out
                \<and> permute [0, 2, 3, 1] out = Inr p \<and> shape p = [1, g0, g1, w]
                \<and> drop w (data new) = data p"
    apply (rule exI [of _ ?new])
    apply (rule exI [of _ t_in])
    apply (rule exI [of _ out])
    apply (rule exI [of _ p])
    using run wfn tk dr tin out p p_shape by simp
qed

theorem resize_pos_embed_spec_witness:
  "resize_pos_embed nearest_interpolate checkpoint_2_rows (Some (GridInt 1)) ''bicubic''
     = Inr checkpoint_2_rows
   \<and> (\<exists>new. resize_pos_embed nearest_interpolate checkpoint_2_rows (Some (GridInt 2)) ''bicubic''
                = Inr (checkpoint_2_rows(''visual.positional_embedding'' \<mapsto> new))
            \<and> shape new = [5, 2] \<and> take 2 (data new) = [1, 2])"
proof -
  let ?old = "\<lparr>shape = [2, 2], data = [1, 2, 3, 4 :: real]\<rparr>"
  have st: "checkpoint_2_rows ''visual.positional_embedding'' = Some ?old"
    by (simp add: checkpoint_2_rows_def)
  have g1: "to_2tuple (GridInt 1) = (1, 1)" and g2: "to_2tuple (GridInt 2) = (2, 2)" by simp_all
  have a: "resize_pos_embed nearest_interpolate checkpoint_2_rows (Some (GridInt 1)) ''bicubic''
     = Inr checkpoint_2_rows"
    using st resize_pos_embed_spec [where state = checkpoint_2_rows and old = ?old
        and visual_grid_size = "Some (GridInt 1)" and g = "GridInt 1" and ?g0.0 = 1 and ?g1.0 = 1
        and F_interpolate = nearest_interpolate and interpolation = "''bicubic''", THEN conjunct1]
    by simp
  have c: "\<forall>t. shape t = [1, 2, 1, 1] \<longrightarrow>
        (\<exists>out. nearest_interpolate t (2, 2) ''bicubic'' = Inr out \<and> shape out = [1, 2, 2, 2])"
    by (simp add: nearest_interpolate_def)
  have b: "\<exists>new t_in out p.
      resize_pos_embed nearest_interpolate checkpoint_2_rows (Some (GridInt 2)) ''bicubic''
        = Inr (checkpoint_2_rows(''visual.positional_embedding'' \<mapsto> new))
      \<and> shape new = [2 * 2 + 1, 2] \<and> wf_tensor new
      \<and> take 2 (data new) = take 2 (data ?old)
      \<and> permute [0, 3, 1, 2] \<lparr>shape = [1, 1, 1, 2], data = drop 2 (data ?old)\<rparr> = Inr t_in
      \<and> nearest_interpolate t_in (2, 2) ''bicubic'' = Inr out
      \<and> permute [0, 2, 3, 1] out = Inr p \<and> shape p = [1, 2, 2, 2]
      \<and> drop 2 (data new) = data p"
    using st c resize_pos_embed_spec [where state = checkpoint_2_rows and old = ?old
        and visual_grid_size = "Some (GridInt 2)" and g = "GridInt 2" and ?g0.0 = 2 and ?g1.0 = 2
        and F_interpolate = nearest_interpolate and interpolation = "''bicubic''", THEN conjunct2,
        THEN spec, THEN spec, of 1 2]
    by (simp add: wf_tensor_def)
  from a b show ?thesis by auto
qed

section \<open>The normalisation wrapper (class LayerNorm)\<close>

text \<open>
  Of a tensor the shape and the dtype are kept. The module holds what \<^verbatim>\<open>nn.LayerNorm\<close>
  holds; \<^verbatim>\<open>weight\<close> and \<^verbatim>\<open>bias\<close> are \<^verbatim>\<open>None\<close> without the elementwise affine map.
  \<^verbatim>\<open>F.layer_norm\<close> is the runtime's, the parameter \<open>F_layer_norm\<close>: it decides in which
  precision the normalisation is computed and which dtype comes back, and it may raise.
\<close>

record LayerNorm =
  normalized_shape :: "nat list"
  weight :: "stored option"
  bias :: "stored option"
  eps :: real

definition to_dtype :: "stored \<Rightarrow> dtype \<Rightarrow> stored" where
  "to_dtype t d = t\<lparr>st_dtype := d\<rparr>"

text \<open>
  \<^verbatim>\<open>LayerNorm.forward\<close>. \<open>LayerNorm_normalized\<close> is its second statement,
  \<^verbatim>\<open>x = F.layer_norm(x, self.normalized_shape, self.weight, self.bias, self.eps)\<close>: the
  tensor the normalisation is computed on is the input itself.
\<close>

definition LayerNorm_normalized ::
  "(stored \<Rightarrow> nat list \<Rightarrow> stored option \<Rightarrow> stored option \<Rightarrow> real \<Rightarrow> error + stored)
     \<Rightarrow> LayerNorm \<Rightarrow> stored \<Rightarrow> error + stored" where
  "LayerNorm_normalized F_layer_norm self x =
     F_layer_norm x (normalized_shape self) (weight self) (bias self) (eps self)"

definition LayerNorm_forward ::
  "(stored \<Rightarrow> nat list \<Rightarrow> stored option \<Rightarrow> stored option \<Rightarrow> real \<Rightarrow> error + stored)
     \<Rightarrow> LayerNorm \<Rightarrow> stored \<Rightarrow> error + stored" where
  "LayerNorm_forward F_layer_norm self x =
     (let orig_type = st_dtype x in
      and_then (LayerNorm_normalized F_layer_norm self x) (\<lambda>x.
        Inr (to_dtype x orig_type)))"

text \<open>The precision of a dtype, as the number of bits of its significand.\<close>

fun significand_bits :: "dtype \<Rightarrow> nat" where
  "significand_bits Float16 = 11"
| "significand_bits BFloat16 = 8"
| "significand_bits Float32 = 24"
| "significand_bits Float64 = 53"

definition higher_precision :: "dtype \<Rightarrow> dtype \<Rightarrow> bool" where
  "higher_precision d d' = (significand_bits d < significand_bits d')"

text \<open>
  Two instances of the runtime's \<^verbatim>\<open>layer_norm\<close>, at the level of shapes and dtypes. Both
  raise unless \<open>normalized_shape\<close> is the trailing part of the input's shape and the shape
  of the weight and of the bias. Outside autocast the result has the dtype of the input,
  and the weight and bias must have that dtype too, or be float32 for a half or bfloat16
  input. Under autocast the operands are taken to float32 and the result is float32.
\<close>

definition layer_norm_shapes_ok :: "stored \<Rightarrow> nat list \<Rightarrow> stored option \<Rightarrow> stored option \<Rightarrow> bool" where
  "layer_norm_shapes_ok x ns w b =
     (length ns \<le> length (st_shape x)
      \<and> drop (length (st_shape x) - length ns) (st_shape x) = ns
      \<and> (case w of None \<Rightarrow> True | Some t \<Rightarrow> st_shape t = ns)
      \<and> (case b of None \<Rightarrow> True | Some t \<Rightarrow> st_shape t = ns))"

definition operand_dtype_ok :: "dtype \<Rightarrow> stored option \<Rightarrow> bool" where
  "operand_dtype_ok d p =
     (case p of
        None \<Rightarrow> True
      | Some t \<Rightarrow> st_dtype t = d \<or> ((d = Float16 \<or> d = BFloat16) \<and> st_dtype t = Float32))"

definition plain_layer_norm ::
  "stored \<Rightarrow> nat list \<Rightarrow> stored option \<Rightarrow> stored option \<Rightarrow> real \<Rightarrow> error + stored" where
  "plain_layer_norm x ns w b e =
     (if \<not> layer_norm_shapes_ok x ns w b then
        Inl (RuntimeError ''Given normalized_shape, expected input and parameters of matching shape'')
      else if \<not> (operand_dtype_ok (st_dtype x) w \<and> operand_dtype_ok (st_dtype x) b) then
        Inl (RuntimeError ''mixed dtype: all inputs must share same datatype'')
      else Inr x)"

definition autocast_layer_norm ::
  "stored \<Rightarrow> nat list \<Rightarrow> stored option \<Rightarrow> stored option \<Rightarrow> real \<Rightarrow> error + stored" where
  "autocast_layer_norm x ns w b e =
     (if \<not> layer_norm_shapes_ok x ns w b then
        Inl (RuntimeError ''Given normalized_shape, expected input and parameters of matching shape'')
      else Inr (to_dtype x Float32))"

text \<open>A normalisation over 8 features, with its parameters in a given dtype.\<close>

definition LayerNorm_8 :: "dtype \<Rightarrow> LayerNorm" where
  "LayerNorm_8 d =
     \<lparr>normalized_shape = [8],
      weight = Some \<lparr>st_shape = [8], st_dtype = d\<rparr>,
      bias = Some \<lparr>st_shape = [8], st_dtype = d\<rparr>,
      eps = 1 / 10 ^ 5\<rparr>"

section \<open>Properties of the normalisation wrapper\<close>

text \<open>
  C4, as stated, fails: the wrapper makes no cast before the normalisation. For a
  bfloat16 input to a bfloat16 module, outside autocast, the normalisation is computed
  on the bfloat16 tensor and its result is bfloat16: no precision higher than the
  input's is involved, and the cast back changes nothing.
\<close>

theorem LayerNorm_no_upcast:
  "LayerNorm_normalized plain_layer_norm (LayerNorm_8 BFloat16) \<lparr>st_shape = [2, 8], st_dtype = BFloat16\<rparr>
     = Inr \<lparr>st_shape = [2, 8], st_dtype = BFloat16\<rparr>
   \<and> \<not> higher_precision BFloat16 (st_dtype \<lparr>st_shape = [2, 8], st_dtype = BFloat16\<rparr>)
   \<and> LayerNorm_forward plain_layer_norm (LayerNorm_8 BFloat16) \<lparr>st_shape = [2, 8], st_dtype = BFloat16\<rparr>
     = Inr \<lparr>st_shape = [2, 8], st_dtype = BFloat16\<rparr>"
  by (simp add: LayerNorm_forward_def LayerNorm_normalized_def plain_layer_norm_def LayerNorm_8_def
      layer_norm_shapes_ok_def operand_dtype_ok_def higher_precision_def to_dtype_def)

text \<open>
  C4, amended. The wrapper hands its input to the runtime's \<^verbatim>\<open>layer_norm\<close> as it is, at
  the input's own dtype. When that call raises, the wrapper raises the same exception;
  when it returns, the wrapper returns its result with the dtype set to the input's, so
  the returned dtype always equals the input's dtype. A precision higher than the
  input's is used only where the runtime provides it.
\<close>

theorem LayerNorm_forward_spec:
  "LayerNorm_normalized F_layer_norm self x
     = F_layer_norm x (normalized_shape self) (weight self) (bias self) (eps self)
   \<and> LayerNorm_forward F_layer_norm self x
     = (case F_layer_norm x (normalized_shape self) (weight self) (bias self) (eps self) of
          Inl e \<Rightarrow> Inl e
        | Inr y \<Rightarrow> Inr (y\<lparr>st_dtype := st_dtype x\<rparr>))
   \<and> (\<forall>y. LayerNorm_forward F_layer_norm self x = Inr y \<longrightarrow> st_dtype y = st_dtype x)"
  by (auto simp: LayerNorm_forward_def LayerNorm_normalized_def to_dtype_def and_then_def
      split: sum.splits)

theorem LayerNorm_forward_spec_witness:
  "LayerNorm_normalized autocast_layer_norm (LayerNorm_8 Float32) \<lparr>st_shape = [2, 8], st_dtype = Float16\<rparr>
     = Inr \<lparr>st_shape = [2, 8], st_dtype = Float32\<rparr>
   \<and> LayerNorm_forward autocast_layer_norm (LayerNorm_8 Float32) \<lparr>st_shape = [2, 8], st_dtype = Float16\<rparr>
     = Inr \<lparr>st_shape = [2, 8], st_dtype = Float16\<rparr>
   \<and> LayerNorm_forward plain_layer_norm (LayerNorm_8 Float32) \<lparr>st_shape = [2, 8], st_dtype = Float64\<rparr>
     = Inl (RuntimeError ''mixed dtype: all inputs must share same datatype'')"
proof -
  let ?x = "\<lparr>st_shape = [2, 8], st_dtype = Float16\<rparr>"
  let ?d = "\<lparr>st_shape = [2, 8], st_dtype = Float64\<rparr>"
  have a: "autocast_layer_norm ?x [8] (weight (LayerNorm_8 Float32)) (bias (LayerNorm_8 Float32))
             (eps (LayerNorm_8 Float32)) = Inr \<lparr>st_shape = [2, 8], st_dtype = Float32\<rparr>"
    by (simp add: autocast_layer_norm_def LayerNorm_8_def layer_norm_shapes_ok_def to_dtype_def)
  have p: "plain_layer_norm ?d [8] (weight (LayerNorm_8 Float32)) (bias (LayerNorm_8 Float32))
             (eps (LayerNorm_8 Float32))
           = Inl (RuntimeError ''mixed dtype: all inputs must share same datatype'')"
    by (simp add: plain_layer_norm_def LayerNorm_8_def layer_norm_shapes_ok_def operand_dtype_ok_def)
  have n: "normalized_shape (LayerNorm_8 Float32) = [8]" by (simp add: LayerNorm_8_def)
  from LayerNorm_forward_spec [of autocast_layer_norm "LayerNorm_8 Float32" ?x]
    LayerNorm_forward_spec [of plain_layer_norm "LayerNorm_8 Float32" ?d] a p n
  show ?thesis by simp
qed

end
